theory Spec2Isabelle
  imports Main "HOL-Library.Word"
begin

unbundle bit_operations_syntax

section \<open>JNI primitive types\<close>

text \<open>
  The binding layer of \<^verbatim>\<open>sqlite-vec-jni.c\<close> and \<^verbatim>\<open>sqlite-vec-jni.cpp\<close> moves
  bytes between Java arrays and native buffers and issues fixed SQL statements. It does no
  floating-point arithmetic: a \<^verbatim>\<open>jfloat\<close> and a \<^verbatim>\<open>jdouble\<close> are carried as
  their IEEE-754 bit patterns. A \<^verbatim>\<open>jlong\<close> holding a \<^verbatim>\<open>sqlite3*\<close> is the
  64-bit pattern of the pointer; the null pointer is 0.
\<close>

type_synonym jbyte = "8 word"
type_synonym jfloat = "32 word"
type_synonym jdouble = "64 word"
type_synonym jlong = "64 word"

text \<open>
  \<^verbatim>\<open>jsize\<close> is a 32-bit signed integer. The sources compute
  \<^verbatim>\<open>length * sizeof(float)\<close> in \<^verbatim>\<open>size_t\<close> and convert the product to
  \<^verbatim>\<open>jsize\<close>: the value wraps around to the two's complement range.
\<close>

definition to_jsize :: "int \<Rightarrow> int" where
  "to_jsize n = (n + 2 ^ 31) mod 2 ^ 32 - 2 ^ 31"

definition sizeof_float :: int where
  "sizeof_float = 4"

subsection \<open>The bytes of a float in host byte order\<close>

datatype endian = LittleEndian | BigEndian

definition float_bytes_le :: "jfloat \<Rightarrow> jbyte list" where
  "float_bytes_le w =
     [ucast w, ucast (drop_bit 8 w), ucast (drop_bit 16 w), ucast (drop_bit 24 w)]"

definition float_bytes :: "endian \<Rightarrow> jfloat \<Rightarrow> jbyte list" where
  "float_bytes e w =
     (case e of LittleEndian \<Rightarrow> float_bytes_le w | BigEndian \<Rightarrow> rev (float_bytes_le w))"

definition float_of_le :: "jbyte \<Rightarrow> jbyte \<Rightarrow> jbyte \<Rightarrow> jbyte \<Rightarrow> jfloat" where
  "float_of_le a b c d =
     ucast a OR push_bit 8 (ucast b) OR push_bit 16 (ucast c) OR push_bit 24 (ucast d)"

definition float_of :: "endian \<Rightarrow> jbyte \<Rightarrow> jbyte \<Rightarrow> jbyte \<Rightarrow> jbyte \<Rightarrow> jfloat" where
  "float_of e a b c d =
     (case e of LittleEndian \<Rightarrow> float_of_le a b c d | BigEndian \<Rightarrow> float_of_le d c b a)"

text \<open>
  The pointer casts \<^verbatim>\<open>(jbyte *) elements\<close> and \<^verbatim>\<open>(jfloat *) data_bytes\<close>
  reinterpret one buffer as the other element type: a float buffer read as bytes is the
  concatenation of its elements' bytes, a byte buffer read as floats groups four bytes at
  a time (trailing bytes that do not fill a float belong to no element).
\<close>

definition floats_as_bytes :: "endian \<Rightarrow> jfloat list \<Rightarrow> jbyte list" where
  "floats_as_bytes e v = concat (map (float_bytes e) v)"

fun bytes_as_floats :: "endian \<Rightarrow> jbyte list \<Rightarrow> jfloat list" where
  "bytes_as_floats e (a # b # c # d # rest) = float_of e a b c d # bytes_as_floats e rest"
| "bytes_as_floats e _ = []"

section \<open>The Java heap and the JNI functions the bindings call\<close>

text \<open>
  A Java reference is an index into the heap, \<open>None\<close> is \<^verbatim>\<open>NULL\<close>. A native
  pointer to a borrowed buffer is the buffer's contents, \<open>None\<close> is \<^verbatim>\<open>NULL\<close>.
  Whether the JVM grants an allocation (\<open>new_ok\<close>) or a borrow (\<open>get_ok\<close>) is
  an input of the model; a refusal is the \<^verbatim>\<open>NULL\<close> answer the native code sees (the
  \<^verbatim>\<open>OutOfMemoryError\<close> the JVM leaves pending for the Java caller is not modelled).
  Every call of a JNI function or of the SQLite API is appended to \<open>calls\<close>.
\<close>

datatype jarray = ByteArray "jbyte list" | FloatArray "jfloat list" | JString string

type_synonym jobject = "nat option"

datatype event =
    Jni string
  | Sqlite_vec_init jlong
  | Sqlite_free
  | Sqlite_prepare_v2 jlong string int
  | Sqlite_errmsg jlong
  | Sqlite_bind_blob nat
  | Sqlite_step int
  | Sqlite_column_double
  | Sqlite_column_int
  | Sqlite_column_blob
  | Sqlite_column_bytes
  | Sqlite_finalize

record world =
  heap :: "jarray list"
  new_ok :: bool
  get_ok :: bool
  calls :: "event list"

text \<open>
  A call that breaks the JNI contract (a \<^verbatim>\<open>NULL\<close> reference or buffer where one is
  required, a reference of the wrong type, a read past the end of a native buffer) has
  no defined result: the model stops with a fault.
\<close>

datatype fault = NullArgument | InvalidReference | WrongType | BufferOverrun

type_synonym 'a jni = "world \<Rightarrow> fault + 'a \<times> world"

definition ret :: "'a \<Rightarrow> 'a jni" where
  "ret x s = Inr (x, s)"

definition bnd :: "'a jni \<Rightarrow> ('a \<Rightarrow> 'b jni) \<Rightarrow> 'b jni" where
  "bnd m f s = (case m s of Inl e \<Rightarrow> Inl e | Inr (x, s') \<Rightarrow> f x s')"

definition log :: "event \<Rightarrow> world \<Rightarrow> world" where
  "log e s = s\<lparr>calls := calls s @ [e]\<rparr>"

definition deref :: "jobject \<Rightarrow> world \<Rightarrow> fault + jarray" where
  "deref obj s =
     (case obj of
        None \<Rightarrow> Inl NullArgument
      | Some r \<Rightarrow> if r < length (heap s) then Inr (heap s ! r) else Inl InvalidReference)"

datatype release_mode = Mode_0 | JNI_ABORT

definition GetArrayLength :: "jobject \<Rightarrow> int jni" where
  "GetArrayLength array s =
     (case deref array s of
        Inl f \<Rightarrow> Inl f
      | Inr (ByteArray b) \<Rightarrow> Inr (int (length b), log (Jni ''GetArrayLength'') s)
      | Inr (FloatArray v) \<Rightarrow> Inr (int (length v), log (Jni ''GetArrayLength'') s)
      | Inr (JString _) \<Rightarrow> Inl WrongType)"

definition GetByteArrayElements :: "jobject \<Rightarrow> jbyte list option jni" where
  "GetByteArrayElements array s =
     (case deref array s of
        Inl f \<Rightarrow> Inl f
      | Inr (ByteArray b) \<Rightarrow>
          Inr (if get_ok s then Some b else None, log (Jni ''GetByteArrayElements'') s)
      | Inr _ \<Rightarrow> Inl WrongType)"

definition GetFloatArrayElements :: "jobject \<Rightarrow> jfloat list option jni" where
  "GetFloatArrayElements array s =
     (case deref array s of
        Inl f \<Rightarrow> Inl f
      | Inr (FloatArray v) \<Rightarrow>
          Inr (if get_ok s then Some v else None, log (Jni ''GetFloatArrayElements'') s)
      | Inr _ \<Rightarrow> Inl WrongType)"

text \<open>
  Releasing with mode 0 copies the buffer back into the array; \<^verbatim>\<open>JNI_ABORT\<close>
  discards it.
\<close>

definition ReleaseByteArrayElements ::
  "jobject \<Rightarrow> jbyte list option \<Rightarrow> release_mode \<Rightarrow> unit jni" where
  "ReleaseByteArrayElements array elems mode s =
     (case (array, elems) of
        (Some r, Some buf) \<Rightarrow>
          (case deref array s of
             Inl f \<Rightarrow> Inl f
           | Inr (ByteArray _) \<Rightarrow>
               Inr ((), log (Jni ''ReleaseByteArrayElements'')
                     (case mode of
                        Mode_0 \<Rightarrow> s\<lparr>heap := (heap s)[r := ByteArray buf]\<rparr>
                      | JNI_ABORT \<Rightarrow> s))
           | Inr _ \<Rightarrow> Inl WrongType)
      | _ \<Rightarrow> Inl NullArgument)"

definition ReleaseFloatArrayElements ::
  "jobject \<Rightarrow> jfloat list option \<Rightarrow> release_mode \<Rightarrow> unit jni" where
  "ReleaseFloatArrayElements array elems mode s =
     (case (array, elems) of
        (Some r, Some buf) \<Rightarrow>
          (case deref array s of
             Inl f \<Rightarrow> Inl f
           | Inr (FloatArray _) \<Rightarrow>
               Inr ((), log (Jni ''ReleaseFloatArrayElements'')
                     (case mode of
                        Mode_0 \<Rightarrow> s\<lparr>heap := (heap s)[r := FloatArray buf]\<rparr>
                      | JNI_ABORT \<Rightarrow> s))
           | Inr _ \<Rightarrow> Inl WrongType)
      | _ \<Rightarrow> Inl NullArgument)"

text \<open>
  A new array is zero-filled and gets a fresh reference. No array has a negative length:
  the call returns \<^verbatim>\<open>NULL\<close> then, as it does when the JVM has no memory.
\<close>

definition NewByteArray :: "int \<Rightarrow> jobject jni" where
  "NewByteArray n s =
     (if 0 \<le> n \<and> new_ok s
      then Inr (Some (length (heap s)),
                log (Jni ''NewByteArray'') (s\<lparr>heap := heap s @ [ByteArray (replicate (nat n) 0)]\<rparr>))
      else Inr (None, log (Jni ''NewByteArray'') s))"

definition NewFloatArray :: "int \<Rightarrow> jobject jni" where
  "NewFloatArray n s =
     (if 0 \<le> n \<and> new_ok s
      then Inr (Some (length (heap s)),
                log (Jni ''NewFloatArray'') (s\<lparr>heap := heap s @ [FloatArray (replicate (nat n) 0)]\<rparr>))
      else Inr (None, log (Jni ''NewFloatArray'') s))"

text \<open>
  A region copy outside the array's bounds copies nothing (the JVM raises
  \<^verbatim>\<open>ArrayIndexOutOfBoundsException\<close>); one inside the bounds reads \<open>len\<close>
  elements of the native buffer.
\<close>

definition SetByteArrayRegion ::
  "jobject \<Rightarrow> int \<Rightarrow> int \<Rightarrow> jbyte list option \<Rightarrow> unit jni" where
  "SetByteArrayRegion array start len buf s =
     (case (array, buf) of
        (Some r, Some src) \<Rightarrow>
          (case deref array s of
             Inl f \<Rightarrow> Inl f
           | Inr (ByteArray old) \<Rightarrow>
               if 0 \<le> start \<and> 0 \<le> len \<and> start + len \<le> int (length old)
               then if nat len \<le> length src
                 then Inr ((), log (Jni ''SetByteArrayRegion'')
                     (s\<lparr>heap := (heap s)[r := ByteArray
                        (take (nat start) old @ take (nat len) src @ drop (nat (start + len)) old)]\<rparr>))
                 else Inl BufferOverrun
               else Inr ((), log (Jni ''SetByteArrayRegion'') s)
           | Inr _ \<Rightarrow> Inl WrongType)
      | _ \<Rightarrow> Inl NullArgument)"

definition SetFloatArrayRegion ::
  "jobject \<Rightarrow> int \<Rightarrow> int \<Rightarrow> jfloat list option \<Rightarrow> unit jni" where
  "SetFloatArrayRegion array start len buf s =
     (case (array, buf) of
        (Some r, Some src) \<Rightarrow>
          (case deref array s of
             Inl f \<Rightarrow> Inl f
           | Inr (FloatArray old) \<Rightarrow>
               if 0 \<le> start \<and> 0 \<le> len \<and> start + len \<le> int (length old)
               then if nat len \<le> length src
                 then Inr ((), log (Jni ''SetFloatArrayRegion'')
                     (s\<lparr>heap := (heap s)[r := FloatArray
                        (take (nat start) old @ take (nat len) src @ drop (nat (start + len)) old)]\<rparr>))
                 else Inl BufferOverrun
               else Inr ((), log (Jni ''SetFloatArrayRegion'') s)
           | Inr _ \<Rightarrow> Inl WrongType)
      | _ \<Rightarrow> Inl NullArgument)"

definition NewStringUTF :: "string \<Rightarrow> jobject jni" where
  "NewStringUTF str s =
     (if new_ok s
      then Inr (Some (length (heap s)),
                log (Jni ''NewStringUTF'') (s\<lparr>heap := heap s @ [JString str]\<rparr>))
      else Inr (None, log (Jni ''NewStringUTF'') s))"

definition GetStringUTFChars :: "jobject \<Rightarrow> string option jni" where
  "GetStringUTFChars str s =
     (case deref str s of
        Inl f \<Rightarrow> Inl f
      | Inr (JString cs) \<Rightarrow>
          Inr (if get_ok s then Some cs else None, log (Jni ''GetStringUTFChars'') s)
      | Inr _ \<Rightarrow> Inl WrongType)"

definition ReleaseStringUTFChars :: "jobject \<Rightarrow> string option \<Rightarrow> unit jni" where
  "ReleaseStringUTFChars str chars s =
     (case (str, chars) of
        (Some r, Some cs) \<Rightarrow> Inr ((), log (Jni ''ReleaseStringUTFChars'') s)
      | _ \<Rightarrow> Inl NullArgument)"

section \<open>The Array Marshaller\<close>

subsection \<open>\<^verbatim>\<open>sqlite-vec-jni.c\<close>\<close>

definition nativeSerializeFloat32_c :: "endian \<Rightarrow> jobject \<Rightarrow> jobject jni" where
  "nativeSerializeFloat32_c e vector =
     bnd (GetArrayLength vector) (\<lambda>len.
     bnd (GetFloatArrayElements vector) (\<lambda>elements.
     bnd (NewByteArray (to_jsize (len * sizeof_float))) (\<lambda>result.
     bnd (SetByteArrayRegion result 0 (to_jsize (len * sizeof_float))
            (map_option (floats_as_bytes e) elements)) (\<lambda>_.
     bnd (ReleaseFloatArrayElements vector elements Mode_0) (\<lambda>_.
     ret result)))))"

definition nativeDeserializeFloat32_c :: "endian \<Rightarrow> jobject \<Rightarrow> jobject jni" where
  "nativeDeserializeFloat32_c e data =
     bnd (GetArrayLength data) (\<lambda>data_length.
     bnd (GetByteArrayElements data) (\<lambda>data_bytes.
     let float_count = to_jsize (data_length div sizeof_float) in
     bnd (NewFloatArray float_count) (\<lambda>result.
     bnd (SetFloatArrayRegion result 0 float_count
            (map_option (bytes_as_floats e) data_bytes)) (\<lambda>_.
     bnd (ReleaseByteArrayElements data data_bytes Mode_0) (\<lambda>_.
     ret result)))))"

definition nativeSerializeInt8_c :: "jobject \<Rightarrow> jobject jni" where
  "nativeSerializeInt8_c vector =
     bnd (GetArrayLength vector) (\<lambda>len.
     bnd (GetByteArrayElements vector) (\<lambda>elements.
     bnd (NewByteArray len) (\<lambda>result.
     bnd (SetByteArrayRegion result 0 len elements) (\<lambda>_.
     bnd (ReleaseByteArrayElements vector elements Mode_0) (\<lambda>_.
     ret result)))))"

definition nativeDeserializeInt8_c :: "jobject \<Rightarrow> jobject jni" where
  "nativeDeserializeInt8_c data =
     bnd (GetArrayLength data) (\<lambda>data_length.
     bnd (GetByteArrayElements data) (\<lambda>data_bytes.
     bnd (NewByteArray data_length) (\<lambda>result.
     bnd (SetByteArrayRegion result 0 data_length data_bytes) (\<lambda>_.
     bnd (ReleaseByteArrayElements data data_bytes Mode_0) (\<lambda>_.
     ret result)))))"

subsection \<open>\<^verbatim>\<open>sqlite-vec-jni.cpp\<close>\<close>

definition nativeSerializeFloat32_cpp :: "endian \<Rightarrow> jobject \<Rightarrow> jobject jni" where
  "nativeSerializeFloat32_cpp e vector =
     bnd (GetArrayLength vector) (\<lambda>len.
     bnd (GetFloatArrayElements vector) (\<lambda>elements.
     if elements = None then ret None
     else
       let byteLength = to_jsize (len * sizeof_float) in
       bnd (NewByteArray byteLength) (\<lambda>result.
       bnd (if result = None then ret ()
            else SetByteArrayRegion result 0 byteLength
                   (map_option (floats_as_bytes e) elements)) (\<lambda>_.
       bnd (ReleaseFloatArrayElements vector elements JNI_ABORT) (\<lambda>_.
       ret result)))))"

definition nativeDeserializeFloat32_cpp :: "endian \<Rightarrow> jobject \<Rightarrow> jobject jni" where
  "nativeDeserializeFloat32_cpp e data =
     bnd (GetArrayLength data) (\<lambda>byteLength.
     bnd (GetByteArrayElements data) (\<lambda>bytes.
     if bytes = None \<or> byteLength mod sizeof_float \<noteq> 0
     then bnd (if bytes = None then ret ()
               else ReleaseByteArrayElements data bytes JNI_ABORT) (\<lambda>_.
          ret None)
     else
       let floatLength = to_jsize (byteLength div sizeof_float) in
       bnd (NewFloatArray floatLength) (\<lambda>result.
       bnd (if result = None then ret ()
            else SetFloatArrayRegion result 0 floatLength
                   (map_option (bytes_as_floats e) bytes)) (\<lambda>_.
       bnd (ReleaseByteArrayElements data bytes JNI_ABORT) (\<lambda>_.
       ret result)))))"

definition nativeSerializeInt8_cpp :: "jobject \<Rightarrow> jobject jni" where
  "nativeSerializeInt8_cpp vector =
     bnd (GetArrayLength vector) (\<lambda>len.
     bnd (NewByteArray len) (\<lambda>result.
     if result = None then ret result
     else
       bnd (GetByteArrayElements vector) (\<lambda>elements.
       if elements = None then ret result
       else
         bnd (SetByteArrayRegion result 0 len elements) (\<lambda>_.
         bnd (ReleaseByteArrayElements vector elements JNI_ABORT) (\<lambda>_.
         ret result)))))"

section \<open>The SQLite engine and the extension\<close>

text \<open>
  SQLite and sqlite-vec are external libraries: what their entry points answer is a
  parameter of the model (\<open>engine\<close>). A prepared statement is the connection, the SQL
  text and the blobs bound so far; \<^verbatim>\<open>sqlite3_prepare_v2\<close> leaves the statement
  pointer \<^verbatim>\<open>NULL\<close> unless it returns \<^verbatim>\<open>SQLITE_OK\<close>. The blob of a result
  row is the byte list that \<^verbatim>\<open>sqlite3_column_blob\<close> points to and
  \<^verbatim>\<open>sqlite3_column_bytes\<close> measures. Messages written to the Android log are not
  part of the model.
\<close>

definition SQLITE_OK :: int where
  "SQLITE_OK = 0"

definition SQLITE_ERROR :: int where
  "SQLITE_ERROR = 1"

definition SQLITE_ROW :: int where
  "SQLITE_ROW = 100"

record sqlite3_stmt =
  stmt_db :: jlong
  stmt_sql :: string
  stmt_binds :: "(nat \<times> jbyte list option) list"

record engine =
  eng_vec_init :: "jlong \<Rightarrow> int \<times> string option"
  eng_prepare :: "jlong \<Rightarrow> string \<Rightarrow> int"
  eng_step :: "sqlite3_stmt \<Rightarrow> int"
  eng_column_double :: "sqlite3_stmt \<Rightarrow> jdouble"
  eng_column_int :: "sqlite3_stmt \<Rightarrow> int"
  eng_column_blob :: "sqlite3_stmt \<Rightarrow> jbyte list"

definition sqlite3_vec_init :: "engine \<Rightarrow> jlong \<Rightarrow> (int \<times> string option) jni" where
  "sqlite3_vec_init eng db s = Inr (eng_vec_init eng db, log (Sqlite_vec_init db) s)"

definition sqlite3_free :: "string option \<Rightarrow> unit jni" where
  "sqlite3_free msg s = Inr ((), log Sqlite_free s)"

definition sqlite3_prepare_v2 ::
  "engine \<Rightarrow> jlong \<Rightarrow> string \<Rightarrow> (int \<times> sqlite3_stmt option) jni" where
  "sqlite3_prepare_v2 eng db sql s =
     (let rc = eng_prepare eng db sql in
      Inr ((rc, if rc = SQLITE_OK
                then Some \<lparr>stmt_db = db, stmt_sql = sql, stmt_binds = []\<rparr>
                else None),
           log (Sqlite_prepare_v2 db sql rc) s))"

definition sqlite3_errmsg :: "jlong \<Rightarrow> unit jni" where
  "sqlite3_errmsg db s = Inr ((), log (Sqlite_errmsg db) s)"

text \<open>
  \<^verbatim>\<open>sqlite3_bind_blob(stmt, i, ptr, n, SQLITE_STATIC)\<close> binds the \<open>n\<close> bytes at
  \<open>ptr\<close> by reference (a \<^verbatim>\<open>NULL\<close> pointer binds SQL NULL). The C statement object is
  updated in place; the model returns the updated statement.
\<close>

definition sqlite3_bind_blob ::
  "sqlite3_stmt option \<Rightarrow> nat \<Rightarrow> jbyte list option \<Rightarrow> int \<Rightarrow> sqlite3_stmt option jni" where
  "sqlite3_bind_blob stmt i ptr n s =
     (case stmt of
        None \<Rightarrow> Inl NullArgument
      | Some st \<Rightarrow>
          Inr (Some (st\<lparr>stmt_binds := stmt_binds st @ [(i, map_option (take (nat n)) ptr)]\<rparr>),
               log (Sqlite_bind_blob i) s))"

definition sqlite3_step :: "engine \<Rightarrow> sqlite3_stmt option \<Rightarrow> int jni" where
  "sqlite3_step eng stmt s =
     (case stmt of
        None \<Rightarrow> Inl NullArgument
      | Some st \<Rightarrow> Inr (eng_step eng st, log (Sqlite_step (eng_step eng st)) s))"

definition sqlite3_column_double :: "engine \<Rightarrow> sqlite3_stmt option \<Rightarrow> jdouble jni" where
  "sqlite3_column_double eng stmt s =
     (case stmt of
        None \<Rightarrow> Inl NullArgument
      | Some st \<Rightarrow> Inr (eng_column_double eng st, log Sqlite_column_double s))"

definition sqlite3_column_int :: "engine \<Rightarrow> sqlite3_stmt option \<Rightarrow> int jni" where
  "sqlite3_column_int eng stmt s =
     (case stmt of
        None \<Rightarrow> Inl NullArgument
      | Some st \<Rightarrow> Inr (eng_column_int eng st, log Sqlite_column_int s))"

definition sqlite3_column_blob :: "engine \<Rightarrow> sqlite3_stmt option \<Rightarrow> jbyte list option jni" where
  "sqlite3_column_blob eng stmt s =
     (case stmt of
        None \<Rightarrow> Inl NullArgument
      | Some st \<Rightarrow> Inr (Some (eng_column_blob eng st), log Sqlite_column_blob s))"

definition sqlite3_column_bytes :: "engine \<Rightarrow> sqlite3_stmt option \<Rightarrow> int jni" where
  "sqlite3_column_bytes eng stmt s =
     (case stmt of
        None \<Rightarrow> Inl NullArgument
      | Some st \<Rightarrow> Inr (int (length (eng_column_blob eng st)), log Sqlite_column_bytes s))"

definition sqlite3_finalize :: "sqlite3_stmt option \<Rightarrow> unit jni" where
  "sqlite3_finalize stmt s = Inr ((), log Sqlite_finalize s)"

text \<open>
  \<^verbatim>\<open>strcmp\<close> on the bytes of two C strings; a \<^verbatim>\<open>NULL\<close> argument has no defined
  result.
\<close>

fun strcmp :: "string \<Rightarrow> string \<Rightarrow> int" where
  "strcmp [] [] = 0"
| "strcmp [] (y # ys) = - int (of_char y)"
| "strcmp (x # xs) [] = int (of_char x)"
| "strcmp (x # xs) (y # ys) =
     (if x = y then strcmp xs ys else int (of_char x) - int (of_char y))"

definition strcmp_ptr :: "string option \<Rightarrow> string \<Rightarrow> int jni" where
  "strcmp_ptr p lit s = (case p of None \<Rightarrow> Inl NullArgument | Some cs \<Rightarrow> Inr (strcmp cs lit, s))"

text \<open>The IEEE-754 binary64 pattern of \<^verbatim>\<open>-1.0\<close>.\<close>

definition minus_one :: jdouble where
  "minus_one = 0xBFF0000000000000"

section \<open>The Extension Initializer\<close>

definition nativeInit_c :: "engine \<Rightarrow> jlong \<Rightarrow> int jni" where
  "nativeInit_c eng db_pointer =
     bnd (sqlite3_vec_init eng db_pointer) (\<lambda>(result, error_msg).
     bnd (if result \<noteq> SQLITE_OK \<and> error_msg \<noteq> None then sqlite3_free error_msg
          else ret ()) (\<lambda>_.
     ret result))"

definition nativeInit_cpp :: "engine \<Rightarrow> jlong \<Rightarrow> int jni" where
  "nativeInit_cpp eng dbHandle =
     (if dbHandle = 0 then ret SQLITE_ERROR
      else
        bnd (sqlite3_vec_init eng dbHandle) (\<lambda>(result, errorMessage).
        bnd (if result \<noteq> SQLITE_OK
             then (if errorMessage \<noteq> None then sqlite3_free errorMessage else ret ())
             else ret ()) (\<lambda>_.
        ret result)))"

text \<open>
  \<^verbatim>\<open>SQLITE_VEC_VERSION\<close> comes from \<^verbatim>\<open>sqlite-vec.h\<close>, which is not among the
  sources: the version string is a parameter.
\<close>

definition nativeGetVersion_c :: "string \<Rightarrow> jobject jni" where
  "nativeGetVersion_c SQLITE_VEC_VERSION = NewStringUTF SQLITE_VEC_VERSION"

definition nativeGetVersion_cpp :: "string \<Rightarrow> jobject jni" where
  "nativeGetVersion_cpp SQLITE_VEC_VERSION = NewStringUTF SQLITE_VEC_VERSION"

section \<open>The Query Adapter\<close>

definition nativeIsLoaded :: "engine \<Rightarrow> jlong \<Rightarrow> bool jni" where
  "nativeIsLoaded eng db_pointer =
     bnd (sqlite3_prepare_v2 eng db_pointer ''SELECT vec_version()'') (\<lambda>(rc, stmt).
     if rc \<noteq> SQLITE_OK then ret False
     else
       bnd (sqlite3_step eng stmt) (\<lambda>rc.
       bnd (sqlite3_finalize stmt) (\<lambda>_.
       ret (rc = SQLITE_ROW))))"

definition nativeDistance ::
  "engine \<Rightarrow> jlong \<Rightarrow> jobject \<Rightarrow> jobject \<Rightarrow> jobject \<Rightarrow> jdouble jni" where
  "nativeDistance eng dbHandle vector1 vector2 metric =
     (if dbHandle = 0 then ret minus_one
      else
        bnd (GetStringUTFChars metric) (\<lambda>metricStr.
        bnd (bnd (strcmp_ptr metricStr ''cosine'') (\<lambda>c.
               if c = 0 then ret ''SELECT vec_distance_cosine(?, ?)''
               else bnd (strcmp_ptr metricStr ''l2'') (\<lambda>c.
                 if c = 0 then ret ''SELECT vec_distance_l2(?, ?)''
                 else ret ''SELECT vec_distance_cosine(?, ?)''))) (\<lambda>sql.
        bnd (ReleaseStringUTFChars metric metricStr) (\<lambda>_.
        bnd (sqlite3_prepare_v2 eng dbHandle sql) (\<lambda>(rc, stmt).
        if rc \<noteq> SQLITE_OK then bnd (sqlite3_errmsg dbHandle) (\<lambda>_. ret minus_one)
        else
          bnd (GetArrayLength vector1) (\<lambda>len1.
          bnd (GetByteArrayElements vector1) (\<lambda>bytes1.
          bnd (sqlite3_bind_blob stmt 1 bytes1 len1) (\<lambda>stmt.
          bnd (GetArrayLength vector2) (\<lambda>len2.
          bnd (GetByteArrayElements vector2) (\<lambda>bytes2.
          bnd (sqlite3_bind_blob stmt 2 bytes2 len2) (\<lambda>stmt.
          bnd (sqlite3_step eng stmt) (\<lambda>rc.
          bnd (if rc = SQLITE_ROW then sqlite3_column_double eng stmt
               else ret minus_one) (\<lambda>result.
          bnd (ReleaseByteArrayElements vector1 bytes1 JNI_ABORT) (\<lambda>_.
          bnd (ReleaseByteArrayElements vector2 bytes2 JNI_ABORT) (\<lambda>_.
          bnd (sqlite3_finalize stmt) (\<lambda>_.
          ret result))))))))))))))))"

definition nativeVectorLength :: "engine \<Rightarrow> jlong \<Rightarrow> jobject \<Rightarrow> int jni" where
  "nativeVectorLength eng dbHandle vector =
     (if dbHandle = 0 then ret (- 1)
      else
        bnd (sqlite3_prepare_v2 eng dbHandle ''SELECT vec_length(?)'') (\<lambda>(rc, stmt).
        if rc \<noteq> SQLITE_OK then ret (- 1)
        else
          bnd (GetArrayLength vector) (\<lambda>len.
          bnd (GetByteArrayElements vector) (\<lambda>bytes.
          bnd (sqlite3_bind_blob stmt 1 bytes len) (\<lambda>stmt.
          bnd (sqlite3_step eng stmt) (\<lambda>rc.
          bnd (if rc = SQLITE_ROW then sqlite3_column_int eng stmt else ret (- 1)) (\<lambda>result.
          bnd (ReleaseByteArrayElements vector bytes JNI_ABORT) (\<lambda>_.
          bnd (sqlite3_finalize stmt) (\<lambda>_.
          ret result)))))))))"

definition nativeNormalize :: "engine \<Rightarrow> jlong \<Rightarrow> jobject \<Rightarrow> jobject jni" where
  "nativeNormalize eng dbHandle vector =
     (if dbHandle = 0 then ret None
      else
        bnd (sqlite3_prepare_v2 eng dbHandle ''SELECT vec_normalize(?)'') (\<lambda>(rc, stmt).
        if rc \<noteq> SQLITE_OK then ret None
        else
          bnd (GetArrayLength vector) (\<lambda>len.
          bnd (GetByteArrayElements vector) (\<lambda>bytes.
          bnd (sqlite3_bind_blob stmt 1 bytes len) (\<lambda>stmt.
          bnd (sqlite3_step eng stmt) (\<lambda>rc.
          bnd (if rc = SQLITE_ROW
               then
                 bnd (sqlite3_column_blob eng stmt) (\<lambda>blob.
                 bnd (sqlite3_column_bytes eng stmt) (\<lambda>blobSize.
                 bnd (NewByteArray blobSize) (\<lambda>result.
                 bnd (if result = None then ret ()
                      else SetByteArrayRegion result 0 blobSize blob) (\<lambda>_.
                 ret result))))
               else ret None) (\<lambda>result.
          bnd (ReleaseByteArrayElements vector bytes JNI_ABORT) (\<lambda>_.
          bnd (sqlite3_finalize stmt) (\<lambda>_.
          ret result)))))))))"

section \<open>Observations on a run\<close>

text \<open>
  The array a returned reference designates in the final heap; \<open>None\<close> when the run
  faults or returns \<^verbatim>\<open>NULL\<close>.
\<close>

definition fetch :: "fault + jobject \<times> world \<Rightarrow> jarray option" where
  "fetch r =
     (case r of
        Inr (Some ref, s) \<Rightarrow> if ref < length (heap s) then Some (heap s ! ref) else None
      | _ \<Rightarrow> None)"

text \<open>Serializing a float vector and deserializing the returned buffer, on one host.\<close>

definition roundtrip_float32_c :: "endian \<Rightarrow> jobject \<Rightarrow> jobject jni" where
  "roundtrip_float32_c e vector =
     bnd (nativeSerializeFloat32_c e vector) (nativeDeserializeFloat32_c e)"

definition roundtrip_float32_cpp :: "endian \<Rightarrow> jobject \<Rightarrow> jobject jni" where
  "roundtrip_float32_cpp e vector =
     bnd (nativeSerializeFloat32_cpp e vector) (nativeDeserializeFloat32_cpp e)"

text \<open>The calls a run added to the log, and those of them that enter SQLite or sqlite-vec.\<close>

definition new_calls :: "world \<Rightarrow> fault + 'a \<times> world \<Rightarrow> event list" where
  "new_calls s r =
     (case r of Inl f \<Rightarrow> [] | Inr (x, s') \<Rightarrow> drop (length (calls s)) (calls s'))"

fun is_engine_call :: "event \<Rightarrow> bool" where
  "is_engine_call (Jni name) = False"
| "is_engine_call _ = True"

text \<open>
  What a caller can observe of a run: the fault, or the returned value with the Java heap
  and the engine calls made.
\<close>

definition observable ::
  "world \<Rightarrow> fault + 'a \<times> world \<Rightarrow> fault + 'a \<times> jarray list \<times> event list" where
  "observable s r =
     (case r of
        Inl f \<Rightarrow> Inl f
      | Inr (x, s') \<Rightarrow> Inr (x, heap s', filter is_engine_call (new_calls s r)))"


text \<open>
  \<open>keeps s r res\<close>: the run \<open>res\<close> from \<open>s\<close> returns, and the array at
  reference \<open>r\<close> has the same contents after it as before.
\<close>

definition keeps :: "world \<Rightarrow> nat \<Rightarrow> fault + 'a \<times> world \<Rightarrow> bool" where
  "keeps s r res =
     (case res of
        Inl f \<Rightarrow> False
      | Inr (x, s') \<Rightarrow> r < length (heap s') \<and> heap s' ! r = heap s ! r)"

text \<open>
  \<open>keeps_if_returns s r res\<close>: if the run returns, the array at \<open>r\<close> has the same
  contents after it as before.
\<close>

definition keeps_if_returns :: "world \<Rightarrow> nat \<Rightarrow> fault + 'a \<times> world \<Rightarrow> bool" where
  "keeps_if_returns s r res =
     (case res of
        Inl f \<Rightarrow> True
      | Inr (x, s') \<Rightarrow> r < length (heap s') \<and> heap s' ! r = heap s ! r)"

text \<open>
  The SQL text \<^verbatim>\<open>nativeDistance\<close> prepares for the bytes of a metric name, and the
  statement that results from binding \<open>blobs\<close> to parameters 1, 2, ... of a freshly
  prepared statement.
\<close>

definition distance_sql :: "string \<Rightarrow> string" where
  "distance_sql m =
     (if strcmp m ''cosine'' = 0 then ''SELECT vec_distance_cosine(?, ?)''
      else if strcmp m ''l2'' = 0 then ''SELECT vec_distance_l2(?, ?)''
      else ''SELECT vec_distance_cosine(?, ?)'')"

definition bound :: "jlong \<Rightarrow> string \<Rightarrow> jbyte list list \<Rightarrow> sqlite3_stmt" where
  "bound db sql blobs =
     \<lparr>stmt_db = db, stmt_sql = sql,
      stmt_binds = zip [1 ..< Suc (length blobs)] (map Some blobs)\<rparr>"


text \<open>The sign, biased exponent and fraction fields of a binary64 pattern.\<close>

definition double_sign :: "jdouble \<Rightarrow> bool" where
  "double_sign w = bit w 63"

definition double_exponent :: "jdouble \<Rightarrow> nat" where
  "double_exponent w = unat (take_bit 11 (drop_bit 52 w))"

definition double_fraction :: "jdouble \<Rightarrow> nat" where
  "double_fraction w = unat (take_bit 52 w)"

subsection \<open>Concrete inputs\<close>

text \<open>A JVM that grants every borrow and allocation, with the given heap and an empty log.\<close>

definition jvm :: "jarray list \<Rightarrow> world" where
  "jvm h = \<lparr>heap = h, new_ok = True, get_ok = True, calls = []\<rparr>"

text \<open>
  An engine that loads the extension on a non-null connection, answers every
  \<^verbatim>\<open>sqlite3_prepare_v2\<close> with \<open>prc\<close> and every \<^verbatim>\<open>sqlite3_step\<close> with
  \<open>src\<close>, and whose result row holds the given values.
\<close>

definition fixed_engine :: "int \<Rightarrow> int \<Rightarrow> jdouble \<Rightarrow> int \<Rightarrow> jbyte list \<Rightarrow> engine" where
  "fixed_engine prc src d n blob =
     \<lparr>eng_vec_init = (\<lambda>db. (if db = 0 then 21 else SQLITE_OK, None)),
      eng_prepare = (\<lambda>db sql. prc),
      eng_step = (\<lambda>st. src),
      eng_column_double = (\<lambda>st. d),
      eng_column_int = (\<lambda>st. n),
      eng_column_blob = (\<lambda>st. blob)\<rparr>"

section \<open>Auxiliary facts\<close>

subsection \<open>Sizes and bytes\<close>

text \<open>
  \<open>to_jsize\<close> is the signed reading of the low 32 bits, and it gives the same value
  whether the product was first reduced to a 64-bit \<^verbatim>\<open>size_t\<close> or not.
\<close>

lemma to_jsize_sint: "to_jsize n = sint (word_of_int n :: 32 word)"
  unfolding to_jsize_def
  by (simp add: sint_sbintrunc' signed_take_bit_eq_take_bit_shift take_bit_eq_mod)

lemma to_jsize_size_t: "to_jsize (n mod 2 ^ 64) = to_jsize n"
proof -
  have "(n mod 2 ^ 64) mod 2 ^ 32 = n mod 2 ^ 32"
    by (simp add: mod_mod_cancel)
  then have "(n mod 2 ^ 64 + 2 ^ 31) mod 2 ^ 32 = (n + 2 ^ 31) mod 2 ^ 32"
    by (metis mod_add_left_eq)
  then show ?thesis by (simp add: to_jsize_def)
qed

lemma to_jsize_id: "0 \<le> n \<Longrightarrow> n < 2 ^ 31 \<Longrightarrow> to_jsize n = n"
  by (simp add: to_jsize_def)

lemma to_jsize_le: "0 \<le> n \<Longrightarrow> to_jsize n \<le> n"
proof -
  assume n: "0 \<le> n"
  have "(n + 2 ^ 31) mod 2 ^ 32 \<le> n + 2 ^ 31"
    using n by (intro zmod_le_nonneg_dividend) simp
  then show ?thesis by (simp add: to_jsize_def)
qed

lemma float_of_le_bytes:
  "float_of_le (ucast w) (ucast (drop_bit 8 w)) (ucast (drop_bit 16 w)) (ucast (drop_bit 24 w)) = w"
  unfolding float_of_le_def
proof (rule bit_word_eqI)
  fix n :: nat
  assume "n < LENGTH(32)"
  then have "n < 8 \<or> (8 \<le> n \<and> n < 16) \<or> (16 \<le> n \<and> n < 24) \<or> (24 \<le> n \<and> n < 32)"
    by auto
  then show "bit (ucast (ucast w :: jbyte) OR push_bit 8 (ucast (ucast (drop_bit 8 w) :: jbyte)) OR
       push_bit 16 (ucast (ucast (drop_bit 16 w) :: jbyte)) OR
       push_bit 24 (ucast (ucast (drop_bit 24 w) :: jbyte)) :: jfloat) n = bit w n"
    by (auto simp: bit_simps)
qed

lemma float_of_float_bytes: "float_bytes e w = [a, b, c, d] \<Longrightarrow> float_of e a b c d = w"
  by (cases e) (auto simp: float_bytes_def float_of_def float_bytes_le_def float_of_le_bytes)

lemma length_floats_as_bytes: "length (floats_as_bytes e v) = 4 * length v"
  by (induction v)
    (auto simp: floats_as_bytes_def float_bytes_def float_bytes_le_def split: endian.splits)

lemma length_bytes_as_floats: "length (bytes_as_floats e b) = length b div 4"
  by (induction e b rule: bytes_as_floats.induct) simp_all

lemma bytes_as_floats_roundtrip: "bytes_as_floats e (floats_as_bytes e v) = v"
proof (induction v)
  case Nil
  then show ?case by (simp add: floats_as_bytes_def)
next
  case (Cons w v)
  obtain a b c d where abcd: "float_bytes e w = [a, b, c, d]"
    by (cases e) (simp_all add: float_bytes_def float_bytes_le_def)
  have "floats_as_bytes e (w # v) = a # b # c # d # floats_as_bytes e v"
    using abcd by (simp add: floats_as_bytes_def)
  then show ?case
    using Cons.IH float_of_float_bytes [OF abcd] by simp
qed

lemma update_same_append: "r < length xs \<Longrightarrow> (xs @ ys)[r := xs ! r] = xs @ ys"
  by (simp add: list_update_append1)

lemmas jni_defs = bnd_def ret_def log_def deref_def GetArrayLength_def GetByteArrayElements_def
  GetFloatArrayElements_def ReleaseByteArrayElements_def ReleaseFloatArrayElements_def
  NewByteArray_def NewFloatArray_def SetByteArrayRegion_def SetFloatArrayRegion_def
  NewStringUTF_def GetStringUTFChars_def ReleaseStringUTFChars_def sizeof_float_def Let_def

subsection \<open>Runs of the Array Marshaller\<close>

lemma ser_f32_c_run:
  assumes "r < length (heap s)" "heap s ! r = FloatArray v" "new_ok s" "get_ok s"
    and "length v < 2 ^ 29"
  shows "nativeSerializeFloat32_c e (Some r) s =
     Inr (Some (length (heap s)),
          s\<lparr>heap := heap s @ [ByteArray (floats_as_bytes e v)],
            calls := calls s @ [Jni ''GetArrayLength'', Jni ''GetFloatArrayElements'',
              Jni ''NewByteArray'', Jni ''SetByteArrayRegion'', Jni ''ReleaseFloatArrayElements'']\<rparr>)"
proof -
  have j: "to_jsize (int (length v) * 4) = int (length v) * 4"
    using assms(5) by (intro to_jsize_id) auto
  show ?thesis
    using assms(1-4) update_same_append [OF assms(1), of "[ByteArray (floats_as_bytes e v)]"]
    by (simp add: nativeSerializeFloat32_c_def jni_defs j length_floats_as_bytes nth_append)
qed

lemma ser_f32_cpp_run:
  assumes "r < length (heap s)" "heap s ! r = FloatArray v" "new_ok s" "get_ok s"
    and "length v < 2 ^ 29"
  shows "nativeSerializeFloat32_cpp e (Some r) s =
     Inr (Some (length (heap s)),
          s\<lparr>heap := heap s @ [ByteArray (floats_as_bytes e v)],
            calls := calls s @ [Jni ''GetArrayLength'', Jni ''GetFloatArrayElements'',
              Jni ''NewByteArray'', Jni ''SetByteArrayRegion'', Jni ''ReleaseFloatArrayElements'']\<rparr>)"
proof -
  have j: "to_jsize (int (length v) * 4) = int (length v) * 4"
    using assms(5) by (intro to_jsize_id) auto
  show ?thesis
    using assms(1-4)
    by (simp add: nativeSerializeFloat32_cpp_def jni_defs j length_floats_as_bytes nth_append)
qed

lemma des_f32_c_run:
  assumes "r < length (heap s)" "heap s ! r = ByteArray b" "new_ok s" "get_ok s"
    and "length b < 2 ^ 31"
  shows "nativeDeserializeFloat32_c e (Some r) s =
     Inr (Some (length (heap s)),
          s\<lparr>heap := heap s @ [FloatArray (bytes_as_floats e b)],
            calls := calls s @ [Jni ''GetArrayLength'', Jni ''GetByteArrayElements'',
              Jni ''NewFloatArray'', Jni ''SetFloatArrayRegion'', Jni ''ReleaseByteArrayElements'']\<rparr>)"
proof -
  have n: "int (length b) div 4 = int (length b div 4)"
    by (simp add: zdiv_int)
  have j: "to_jsize (int (length b div 4)) = int (length b div 4)"
    using assms(5) by (intro to_jsize_id) auto
  show ?thesis
    using assms(1-4) update_same_append [OF assms(1), of "[FloatArray (bytes_as_floats e b)]"]
    by (simp add: nativeDeserializeFloat32_c_def jni_defs j n length_bytes_as_floats nth_append)
qed

lemma des_f32_cpp_run:
  assumes "r < length (heap s)" "heap s ! r = ByteArray b" "new_ok s" "get_ok s"
    and "length b < 2 ^ 31" and "length b mod 4 = 0"
  shows "nativeDeserializeFloat32_cpp e (Some r) s =
     Inr (Some (length (heap s)),
          s\<lparr>heap := heap s @ [FloatArray (bytes_as_floats e b)],
            calls := calls s @ [Jni ''GetArrayLength'', Jni ''GetByteArrayElements'',
              Jni ''NewFloatArray'', Jni ''SetFloatArrayRegion'', Jni ''ReleaseByteArrayElements'']\<rparr>)"
proof -
  have n: "int (length b) div 4 = int (length b div 4)"
    by (simp add: zdiv_int)
  have j: "to_jsize (int (length b div 4)) = int (length b div 4)"
    using assms(5) by (intro to_jsize_id) auto
  have m: "int (length b) mod 4 = 0"
    using assms(6) by presburger
  show ?thesis
    using assms(1-4)
    by (simp add: nativeDeserializeFloat32_cpp_def jni_defs j n m length_bytes_as_floats nth_append)
qed

lemma des_f32_cpp_unaligned:
  assumes "r < length (heap s)" "heap s ! r = ByteArray b" "length b mod 4 \<noteq> 0"
  shows "\<exists>s'. nativeDeserializeFloat32_cpp e (Some r) s = Inr (None, s') \<and> heap s' = heap s"
proof -
  have m: "int (length b) mod 4 \<noteq> 0"
    using assms(3) by presburger
  show ?thesis
    using assms(1,2)
    by (cases "get_ok s") (simp_all add: nativeDeserializeFloat32_cpp_def jni_defs m)
qed

lemma ser_i8_c_run:
  assumes "r < length (heap s)" "heap s ! r = ByteArray b" "new_ok s" "get_ok s"
  shows "nativeSerializeInt8_c (Some r) s =
     Inr (Some (length (heap s)),
          s\<lparr>heap := heap s @ [ByteArray b],
            calls := calls s @ [Jni ''GetArrayLength'', Jni ''GetByteArrayElements'',
              Jni ''NewByteArray'', Jni ''SetByteArrayRegion'', Jni ''ReleaseByteArrayElements'']\<rparr>)"
  using assms update_same_append [OF assms(1), of "[ByteArray b]"]
  by (simp add: nativeSerializeInt8_c_def jni_defs nth_append)

lemma des_i8_c_run:
  assumes "r < length (heap s)" "heap s ! r = ByteArray b" "new_ok s" "get_ok s"
  shows "nativeDeserializeInt8_c (Some r) s =
     Inr (Some (length (heap s)),
          s\<lparr>heap := heap s @ [ByteArray b],
            calls := calls s @ [Jni ''GetArrayLength'', Jni ''GetByteArrayElements'',
              Jni ''NewByteArray'', Jni ''SetByteArrayRegion'', Jni ''ReleaseByteArrayElements'']\<rparr>)"
  using assms update_same_append [OF assms(1), of "[ByteArray b]"]
  by (simp add: nativeDeserializeInt8_c_def jni_defs nth_append)

lemma ser_i8_cpp_run:
  assumes "r < length (heap s)" "heap s ! r = ByteArray b" "new_ok s" "get_ok s"
  shows "nativeSerializeInt8_cpp (Some r) s =
     Inr (Some (length (heap s)),
          s\<lparr>heap := heap s @ [ByteArray b],
            calls := calls s @ [Jni ''GetArrayLength'', Jni ''NewByteArray'',
              Jni ''GetByteArrayElements'', Jni ''SetByteArrayRegion'', Jni ''ReleaseByteArrayElements'']\<rparr>)"
  using assms
  by (simp add: nativeSerializeInt8_cpp_def jni_defs nth_append)

lemma fetch_Inr:
  "fetch (Inr (Some r, s)) = (if r < length (heap s) then Some (heap s ! r) else None)"
  by (simp add: fetch_def)

text \<open>
  A vector of \<open>2 ^ 30\<close> floats: \<^verbatim>\<open>length * sizeof(float)\<close> is \<open>2 ^ 32\<close>, which
  is 0 as a \<^verbatim>\<open>jsize\<close>.
\<close>

lemma ser_f32_cpp_wraps:
  assumes "r < length (heap s)" "heap s ! r = FloatArray v" "new_ok s" "get_ok s"
    and "length v = 2 ^ 30"
  shows "nativeSerializeFloat32_cpp e (Some r) s =
     Inr (Some (length (heap s)),
          s\<lparr>heap := heap s @ [ByteArray []],
            calls := calls s @ [Jni ''GetArrayLength'', Jni ''GetFloatArrayElements'',
              Jni ''NewByteArray'', Jni ''SetByteArrayRegion'', Jni ''ReleaseFloatArrayElements'']\<rparr>)"
proof -
  have j: "to_jsize (int (length v) * 4) = 0"
    using assms(5) by (simp add: to_jsize_def)
  show ?thesis
    using assms(1-4)
    by (simp add: nativeSerializeFloat32_cpp_def jni_defs j nth_append)
qed

lemma roundtrip_cpp_wraps:
  assumes "r < length (heap s)" "heap s ! r = FloatArray v" "new_ok s" "get_ok s"
    and "length v = 2 ^ 30"
  shows "fetch (nativeSerializeFloat32_cpp e (Some r) s) = Some (ByteArray [])
       \<and> fetch (roundtrip_float32_cpp e (Some r) s) = Some (FloatArray [])"
proof -
  have a: "fetch (nativeSerializeFloat32_cpp e (Some r) s) = Some (ByteArray [])"
    by (simp add: ser_f32_cpp_wraps [OF assms] fetch_Inr)
  have b: "fetch (roundtrip_float32_cpp e (Some r) s) = Some (FloatArray [])"
    unfolding roundtrip_float32_cpp_def bnd_def
    using assms(3,4)
    by (simp add: ser_f32_cpp_wraps [OF assms] des_f32_cpp_run fetch_Inr nth_append)
  show ?thesis using a b by simp
qed

section \<open>The Array Marshaller: round trip, identity copies, malformed buffers\<close>

text \<open>
  C1 (amended). For every float32 vector \<open>v\<close> of fewer than \<open>2 ^ 29\<close> elements, on a
  run where the JVM grants the borrow and the allocation, \<^verbatim>\<open>nativeSerializeFloat32\<close>
  returns a buffer holding the bytes of \<open>v\<close> in host byte order, 4 bytes per element,
  and \<^verbatim>\<open>nativeDeserializeFloat32\<close> of that buffer on the same host returns \<open>v\<close>
  exactly, element for element. Both implementations.
\<close>

theorem float32_roundtrip:
  assumes "r < length (heap s)" and "heap s ! r = FloatArray v"
    and "new_ok s" and "get_ok s" and "length v < 2 ^ 29"
  shows "fetch (nativeSerializeFloat32_c e (Some r) s) = Some (ByteArray (floats_as_bytes e v))
       \<and> fetch (nativeSerializeFloat32_cpp e (Some r) s) = Some (ByteArray (floats_as_bytes e v))
       \<and> length (floats_as_bytes e v) = 4 * length v
       \<and> fetch (roundtrip_float32_c e (Some r) s) = Some (FloatArray v)
       \<and> fetch (roundtrip_float32_cpp e (Some r) s) = Some (FloatArray v)"
proof -
  let ?b = "floats_as_bytes e v"
  have len: "length ?b < 2 ^ 31" "length ?b mod 4 = 0"
    using assms(5) by (simp_all add: length_floats_as_bytes)
  have c1: "fetch (nativeSerializeFloat32_c e (Some r) s) = Some (ByteArray ?b)"
    by (simp add: ser_f32_c_run [OF assms] fetch_Inr)
  have c2: "fetch (nativeSerializeFloat32_cpp e (Some r) s) = Some (ByteArray ?b)"
    by (simp add: ser_f32_cpp_run [OF assms] fetch_Inr)
  have c3: "fetch (roundtrip_float32_c e (Some r) s) = Some (FloatArray v)"
    unfolding roundtrip_float32_c_def bnd_def
    using assms(3,4) len
    by (simp add: ser_f32_c_run [OF assms] des_f32_c_run fetch_Inr bytes_as_floats_roundtrip
        nth_append)
  have c4: "fetch (roundtrip_float32_cpp e (Some r) s) = Some (FloatArray v)"
    unfolding roundtrip_float32_cpp_def bnd_def
    using assms(3,4) len
    by (simp add: ser_f32_cpp_run [OF assms] des_f32_cpp_run fetch_Inr bytes_as_floats_roundtrip
        nth_append)
  show ?thesis
    using c1 c2 c3 c4 by (simp add: length_floats_as_bytes)
qed

text \<open>The vector \<open>[1.0, -2.5, 0.0]\<close> on a little-endian host.\<close>

theorem float32_roundtrip_witness:
  "heap (jvm [FloatArray [0x3F800000, 0xC0200000, 0]]) ! 0 = FloatArray [0x3F800000, 0xC0200000, 0]
   \<and> new_ok (jvm [FloatArray [0x3F800000, 0xC0200000, 0]])
   \<and> get_ok (jvm [FloatArray [0x3F800000, 0xC0200000, 0]])
   \<and> fetch (nativeSerializeFloat32_c LittleEndian (Some 0)
         (jvm [FloatArray [0x3F800000, 0xC0200000, 0]]))
     = Some (ByteArray [0, 0, 0x80, 0x3F, 0, 0, 0x20, 0xC0, 0, 0, 0, 0])
   \<and> fetch (nativeSerializeFloat32_cpp LittleEndian (Some 0)
         (jvm [FloatArray [0x3F800000, 0xC0200000, 0]]))
     = Some (ByteArray [0, 0, 0x80, 0x3F, 0, 0, 0x20, 0xC0, 0, 0, 0, 0])
   \<and> fetch (roundtrip_float32_c LittleEndian (Some 0)
         (jvm [FloatArray [0x3F800000, 0xC0200000, 0]]))
     = Some (FloatArray [0x3F800000, 0xC0200000, 0])
   \<and> fetch (roundtrip_float32_cpp LittleEndian (Some 0)
         (jvm [FloatArray [0x3F800000, 0xC0200000, 0]]))
     = Some (FloatArray [0x3F800000, 0xC0200000, 0])"
  using float32_roundtrip [of 0 "jvm [FloatArray [0x3F800000, 0xC0200000, 0]]"
      "[0x3F800000, 0xC0200000, 0]" LittleEndian]
  by (simp add: jvm_def floats_as_bytes_def float_bytes_def float_bytes_le_def)

text \<open>
  Without the bound on the length the round trip fails. At a vector of \<open>2 ^ 30\<close>
  elements the byte length wraps to 0, the returned buffer is empty, and deserializing it
  returns the empty vector.
\<close>

theorem float32_roundtrip_counterexample:
  "fetch (nativeSerializeFloat32_cpp LittleEndian (Some 0) (jvm [FloatArray (replicate (2 ^ 30) 0)]))
     = Some (ByteArray [])
   \<and> fetch (roundtrip_float32_cpp LittleEndian (Some 0) (jvm [FloatArray (replicate (2 ^ 30) 0)]))
     = Some (FloatArray [])
   \<and> fetch (roundtrip_float32_cpp LittleEndian (Some 0) (jvm [FloatArray (replicate (2 ^ 30) 0)]))
     \<noteq> Some (FloatArray (replicate (2 ^ 30) 0))"
  using roundtrip_cpp_wraps [of 0 "jvm [FloatArray (replicate (2 ^ 30) 0)]"
      "replicate (2 ^ 30) 0" LittleEndian]
  by (simp add: jvm_def)

text \<open>
  C2. A buffer whose length is not divisible by 4 must deserialize to an absent result.
  The C++ implementation does so (\<open>deserialize_cpp_rejects\<close> below); the C implementation has no such check: on
  the 5-byte buffer \<open>[1, 2, 3, 4, 5]\<close> it returns a vector of one float built from
  the first four bytes.
\<close>

theorem deserialize_c_truncates:
  "fetch (nativeDeserializeFloat32_c LittleEndian (Some 0) (jvm [ByteArray [1, 2, 3, 4, 5]]))
     = Some (FloatArray [0x04030201])"
  by (simp add: des_f32_c_run jvm_def fetch_Inr float_of_def float_of_le_def)

text \<open>
  C6. For every int8 vector, on a run where the JVM grants the borrow and the allocation,
  \<^verbatim>\<open>nativeSerializeInt8\<close> (both implementations) and \<^verbatim>\<open>nativeDeserializeInt8\<close>
  (the C implementation; the C++ file has none) return a new array whose bytes, and so
  whose length, are those of the input.
\<close>

theorem int8_identity:
  assumes "r < length (heap s)" and "heap s ! r = ByteArray b" and "new_ok s" and "get_ok s"
  shows "(\<exists>s'. nativeSerializeInt8_c (Some r) s = Inr (Some (length (heap s)), s')
            \<and> heap s' = heap s @ [ByteArray b])
       \<and> (\<exists>s'. nativeDeserializeInt8_c (Some r) s = Inr (Some (length (heap s)), s')
            \<and> heap s' = heap s @ [ByteArray b])
       \<and> (\<exists>s'. nativeSerializeInt8_cpp (Some r) s = Inr (Some (length (heap s)), s')
            \<and> heap s' = heap s @ [ByteArray b])"
  by (simp add: ser_i8_c_run [OF assms] des_i8_c_run [OF assms] ser_i8_cpp_run [OF assms])

theorem int8_identity_witness:
  "heap (jvm [ByteArray [1, 0xFF, 0x80]]) ! 0 = ByteArray [1, 0xFF, 0x80]
   \<and> fetch (nativeSerializeInt8_c (Some 0) (jvm [ByteArray [1, 0xFF, 0x80]]))
       = Some (ByteArray [1, 0xFF, 0x80])
   \<and> fetch (nativeDeserializeInt8_c (Some 0) (jvm [ByteArray [1, 0xFF, 0x80]]))
       = Some (ByteArray [1, 0xFF, 0x80])
   \<and> fetch (nativeSerializeInt8_cpp (Some 0) (jvm [ByteArray [1, 0xFF, 0x80]]))
       = Some (ByteArray [1, 0xFF, 0x80])"
  using int8_identity [of 0 "jvm [ByteArray [1, 0xFF, 0x80]]" "[1, 0xFF, 0x80]"]
  by (auto simp: jvm_def fetch_Inr)

section \<open>The Array Marshaller: the input array is left as it was\<close>

lemma keeps_Inr: "keeps s r (Inr (x, s')) = (r < length (heap s') \<and> heap s' ! r = heap s ! r)"
  by (simp add: keeps_def)

text \<open>
  The C++ functions check every answer of the JVM and release with \<^verbatim>\<open>JNI_ABORT\<close>:
  they return on every valid input, whatever the JVM grants and however long the array.
\<close>

lemma ser_f32_cpp_keeps:
  assumes "r < length (heap s)" "heap s ! r = FloatArray v"
  shows "keeps s r (nativeSerializeFloat32_cpp e (Some r) s)"
proof -
  have le: "to_jsize (int (length v) * 4) \<le> int (4 * length v)"
    using to_jsize_le [of "int (length v) * 4"] by simp
  then have n: "0 \<le> to_jsize (int (length v) * 4) \<Longrightarrow>
      nat (to_jsize (int (length v) * 4)) \<le> 4 * length v"
    by linarith
  show ?thesis
    using assms n
    by (cases "get_ok s"; cases "new_ok s"; cases "0 \<le> to_jsize (int (length v) * 4)")
      (simp_all add: nativeSerializeFloat32_cpp_def jni_defs keeps_Inr nth_append
        length_floats_as_bytes)
qed

lemma des_f32_cpp_keeps:
  assumes "r < length (heap s)" "heap s ! r = ByteArray b"
  shows "keeps s r (nativeDeserializeFloat32_cpp e (Some r) s)"
proof -
  have d: "int (length b) div 4 = int (length b div 4)"
    by (simp add: zdiv_int)
  have le: "to_jsize (int (length b div 4)) \<le> int (length b div 4)"
    by (rule to_jsize_le) simp
  then have n: "0 \<le> to_jsize (int (length b div 4)) \<Longrightarrow>
      nat (to_jsize (int (length b div 4))) \<le> length b div 4"
    by linarith
  show ?thesis
    using assms n
    by (cases "get_ok s"; cases "new_ok s"; cases "0 \<le> to_jsize (int (length b div 4))";
        cases "int (length b) mod 4 = 0")
      (simp_all add: nativeDeserializeFloat32_cpp_def jni_defs keeps_Inr nth_append d
        length_bytes_as_floats)
qed

lemma ser_i8_cpp_keeps:
  assumes "r < length (heap s)" "heap s ! r = ByteArray b"
  shows "keeps s r (nativeSerializeInt8_cpp (Some r) s)"
  using assms
  by (cases "get_ok s"; cases "new_ok s")
    (simp_all add: nativeSerializeInt8_cpp_def jni_defs keeps_Inr nth_append)

text \<open>
  The C functions check no answer of the JVM and release with mode 0, which copies the
  unmodified buffer back: whenever they return, the input array is as it was.
\<close>

lemma keeps_imp: "keeps s r res \<Longrightarrow> keeps_if_returns s r res"
  by (auto simp: keeps_def keeps_if_returns_def split: sum.splits)

lemma keeps_if_returns_Inr:
  "keeps_if_returns s r (Inr (x, s')) = (r < length (heap s') \<and> heap s' ! r = heap s ! r)"
  by (simp add: keeps_if_returns_def)

lemma keeps_if_returns_Inl: "keeps_if_returns s r (Inl f)"
  by (simp add: keeps_if_returns_def)

lemma ser_f32_c_partial:
  assumes "r < length (heap s)" "heap s ! r = FloatArray v"
  shows "keeps_if_returns s r (nativeSerializeFloat32_c e (Some r) s)"
proof -
  have le: "to_jsize (int (length v) * 4) \<le> int (4 * length v)"
    using to_jsize_le [of "int (length v) * 4"] by simp
  then have n: "0 \<le> to_jsize (int (length v) * 4) \<Longrightarrow>
      nat (to_jsize (int (length v) * 4)) \<le> 4 * length v"
    by linarith
  show ?thesis
    using assms n update_same_append [OF assms(1)]
    by (cases "get_ok s"; cases "new_ok s"; cases "0 \<le> to_jsize (int (length v) * 4)")
      (simp_all add: nativeSerializeFloat32_c_def jni_defs keeps_if_returns_def nth_append
        length_floats_as_bytes list_update_append1)
qed

lemma des_f32_c_partial:
  assumes "r < length (heap s)" "heap s ! r = ByteArray b"
  shows "keeps_if_returns s r (nativeDeserializeFloat32_c e (Some r) s)"
proof -
  have d: "int (length b) div 4 = int (length b div 4)"
    by (simp add: zdiv_int)
  have le: "to_jsize (int (length b div 4)) \<le> int (length b div 4)"
    by (rule to_jsize_le) simp
  then have n: "0 \<le> to_jsize (int (length b div 4)) \<Longrightarrow>
      nat (to_jsize (int (length b div 4))) \<le> length b div 4"
    by linarith
  show ?thesis
    using assms n
    by (cases "get_ok s"; cases "new_ok s"; cases "0 \<le> to_jsize (int (length b div 4))")
      (simp_all add: nativeDeserializeFloat32_c_def jni_defs keeps_if_returns_def nth_append d
        length_bytes_as_floats list_update_append1)
qed

lemma ser_i8_c_partial:
  assumes "r < length (heap s)" "heap s ! r = ByteArray b"
  shows "keeps_if_returns s r (nativeSerializeInt8_c (Some r) s)"
  using assms
  by (cases "get_ok s"; cases "new_ok s")
    (simp_all add: nativeSerializeInt8_c_def jni_defs keeps_if_returns_def nth_append
      list_update_append1)

lemma des_i8_c_partial:
  assumes "r < length (heap s)" "heap s ! r = ByteArray b"
  shows "keeps_if_returns s r (nativeDeserializeInt8_c (Some r) s)"
  using assms
  by (cases "get_ok s"; cases "new_ok s")
    (simp_all add: nativeDeserializeInt8_c_def jni_defs keeps_if_returns_def nth_append
      list_update_append1)

text \<open>
  C10. Every Array Marshaller operation leaves its input array unchanged: whenever a call
  returns, the array's contents after it equal its contents before. The call does return:
  for the C++ functions whatever the JVM grants, for the C functions when the JVM grants
  the borrow and the allocation (array lengths within the \<^verbatim>\<open>jsize\<close> bounds of the
  round trip).
\<close>

theorem marshaller_keeps_input:
  assumes "r < length (heap s)"
  shows "(heap s ! r = FloatArray v \<longrightarrow>
            keeps_if_returns s r (nativeSerializeFloat32_c e (Some r) s)
          \<and> keeps_if_returns s r (nativeSerializeFloat32_cpp e (Some r) s))
       \<and> (heap s ! r = ByteArray b \<longrightarrow>
            keeps_if_returns s r (nativeDeserializeFloat32_c e (Some r) s)
          \<and> keeps_if_returns s r (nativeDeserializeFloat32_cpp e (Some r) s)
          \<and> keeps_if_returns s r (nativeSerializeInt8_c (Some r) s)
          \<and> keeps_if_returns s r (nativeDeserializeInt8_c (Some r) s)
          \<and> keeps s r (nativeSerializeInt8_cpp (Some r) s))
       \<and> (heap s ! r = FloatArray v \<and> length v < 2 ^ 29 \<longrightarrow>
            keeps s r (nativeSerializeFloat32_cpp e (Some r) s))
       \<and> (heap s ! r = ByteArray b \<and> length b < 2 ^ 31 \<longrightarrow>
            keeps s r (nativeDeserializeFloat32_cpp e (Some r) s))
       \<and> (heap s ! r = FloatArray v \<and> new_ok s \<and> get_ok s \<and> length v < 2 ^ 29 \<longrightarrow>
            keeps s r (nativeSerializeFloat32_c e (Some r) s))
       \<and> (heap s ! r = ByteArray b \<and> new_ok s \<and> get_ok s \<and> length b < 2 ^ 31 \<longrightarrow>
            keeps s r (nativeDeserializeFloat32_c e (Some r) s))
       \<and> (heap s ! r = ByteArray b \<and> new_ok s \<and> get_ok s \<longrightarrow>
            keeps s r (nativeSerializeInt8_c (Some r) s)
          \<and> keeps s r (nativeDeserializeInt8_c (Some r) s))"
  using assms ser_f32_cpp_keeps [of r s v e] des_f32_cpp_keeps [of r s b e]
    ser_i8_cpp_keeps [of r s b] ser_f32_c_partial [of r s v e] des_f32_c_partial [of r s b e]
    ser_i8_c_partial [of r s b] des_i8_c_partial [of r s b]
    keeps_imp [of s r "nativeSerializeFloat32_cpp e (Some r) s"]
    keeps_imp [of s r "nativeDeserializeFloat32_cpp e (Some r) s"]
  by (simp add: ser_f32_c_run des_f32_c_run ser_i8_c_run des_i8_c_run keeps_Inr nth_append)

theorem marshaller_keeps_input_witness:
  "keeps (jvm [FloatArray [0x3F800000, 0], ByteArray [1, 2, 3, 4]]) 0
     (nativeSerializeFloat32_cpp LittleEndian (Some 0)
        (jvm [FloatArray [0x3F800000, 0], ByteArray [1, 2, 3, 4]]))
   \<and> keeps (jvm [FloatArray [0x3F800000, 0], ByteArray [1, 2, 3, 4]]) 0
     (nativeSerializeFloat32_c LittleEndian (Some 0)
        (jvm [FloatArray [0x3F800000, 0], ByteArray [1, 2, 3, 4]]))
   \<and> keeps (jvm [FloatArray [0x3F800000, 0], ByteArray [1, 2, 3, 4]]) 1
     (nativeDeserializeFloat32_cpp LittleEndian (Some 1)
        (jvm [FloatArray [0x3F800000, 0], ByteArray [1, 2, 3, 4]]))
   \<and> keeps (jvm [FloatArray [0x3F800000, 0], ByteArray [1, 2, 3, 4]]) 1
     (nativeDeserializeFloat32_c LittleEndian (Some 1)
        (jvm [FloatArray [0x3F800000, 0], ByteArray [1, 2, 3, 4]]))
   \<and> keeps (jvm [FloatArray [0x3F800000, 0], ByteArray [1, 2, 3, 4]]) 1
     (nativeSerializeInt8_cpp (Some 1) (jvm [FloatArray [0x3F800000, 0], ByteArray [1, 2, 3, 4]]))
   \<and> keeps (jvm [FloatArray [0x3F800000, 0], ByteArray [1, 2, 3, 4]]) 1
     (nativeSerializeInt8_c (Some 1) (jvm [FloatArray [0x3F800000, 0], ByteArray [1, 2, 3, 4]]))
   \<and> keeps (jvm [FloatArray [0x3F800000, 0], ByteArray [1, 2, 3, 4]]) 1
     (nativeDeserializeInt8_c (Some 1) (jvm [FloatArray [0x3F800000, 0], ByteArray [1, 2, 3, 4]]))"
  using marshaller_keeps_input [where r = 0 and e = LittleEndian
      and s = "jvm [FloatArray [0x3F800000, 0], ByteArray [1, 2, 3, 4]]"
      and v = "[0x3F800000, 0]" and b = "[]"]
    marshaller_keeps_input [where r = 1 and e = LittleEndian
      and s = "jvm [FloatArray [0x3F800000, 0], ByteArray [1, 2, 3, 4]]"
      and v = "[]" and b = "[1, 2, 3, 4]"]
  by (simp add: jvm_def)

section \<open>Runs of the Query Adapter\<close>

lemmas sqlite_defs = sqlite3_vec_init_def sqlite3_free_def sqlite3_prepare_v2_def
  sqlite3_errmsg_def sqlite3_bind_blob_def sqlite3_step_def sqlite3_column_double_def
  sqlite3_column_int_def sqlite3_column_blob_def sqlite3_column_bytes_def sqlite3_finalize_def
  strcmp_ptr_def

lemma strcmp_0_eq:
  "strcmp a b = 0 \<Longrightarrow> CHR 0x00 \<notin> set a \<Longrightarrow> CHR 0x00 \<notin> set b \<Longrightarrow> a = b"
proof (induction a b rule: strcmp.induct)
  case 1
  then show ?case by simp
next
  case (2 y ys)
  then have "of_char y = (of_char (CHR 0x00) :: nat)" by simp
  then have "y = CHR 0x00" by (simp only: of_char_eq_iff)
  with 2 show ?case by simp
next
  case (3 x xs)
  then have "of_char x = (of_char (CHR 0x00) :: nat)" by simp
  then have "x = CHR 0x00" by (simp only: of_char_eq_iff)
  with 3 show ?case by simp
next
  case (4 x xs y ys)
  show ?case
  proof (cases "x = y")
    case True
    with 4 show ?thesis by simp
  next
    case False
    with 4(2) have "int (of_char x) = int (of_char y)" by simp
    then have "x = y" by simp
    with False show ?thesis by simp
  qed
qed

lemma distance_sql_default:
  assumes "CHR 0x00 \<notin> set m" "m \<noteq> ''l2''"
  shows "distance_sql m = ''SELECT vec_distance_cosine(?, ?)''"
proof -
  have "strcmp m ''l2'' \<noteq> 0"
    using strcmp_0_eq [of m "''l2''"] assms by auto
  then show ?thesis by (simp add: distance_sql_def)
qed

lemma distance_sql_cosine: "distance_sql ''cosine'' = ''SELECT vec_distance_cosine(?, ?)''"
  by (simp add: distance_sql_def)

lemma distance_select:
  "bnd (strcmp_ptr p ''cosine'') (\<lambda>c.
     if c = 0 then ret ''SELECT vec_distance_cosine(?, ?)''
     else bnd (strcmp_ptr p ''l2'') (\<lambda>c.
       if c = 0 then ret ''SELECT vec_distance_l2(?, ?)''
       else ret ''SELECT vec_distance_cosine(?, ?)''))
   = (\<lambda>s. case p of None \<Rightarrow> Inl NullArgument | Some cs \<Rightarrow> Inr (distance_sql cs, s))"
  by (rule ext) (simp add: bnd_def ret_def strcmp_ptr_def distance_sql_def split: option.splits)

lemma isloaded_run:
  "nativeIsLoaded eng db s =
     (if eng_prepare eng db ''SELECT vec_version()'' \<noteq> SQLITE_OK
      then Inr (False, s\<lparr>calls := calls s @
             [Sqlite_prepare_v2 db ''SELECT vec_version()'' (eng_prepare eng db ''SELECT vec_version()'')]\<rparr>)
      else Inr (eng_step eng (bound db ''SELECT vec_version()'' []) = SQLITE_ROW,
             s\<lparr>calls := calls s @
               [Sqlite_prepare_v2 db ''SELECT vec_version()'' SQLITE_OK,
                Sqlite_step (eng_step eng (bound db ''SELECT vec_version()'' [])),
                Sqlite_finalize]\<rparr>))"
  by (simp add: nativeIsLoaded_def bnd_def ret_def log_def Let_def sqlite_defs bound_def)

lemma distance_run:
  assumes "db \<noteq> 0" and "get_ok s"
    and "v1 < length (heap s)" "heap s ! v1 = ByteArray b1"
    and "v2 < length (heap s)" "heap s ! v2 = ByteArray b2"
    and "m < length (heap s)" "heap s ! m = JString ms"
  shows "nativeDistance eng db (Some v1) (Some v2) (Some m) s =
     (if eng_prepare eng db (distance_sql ms) \<noteq> SQLITE_OK
      then Inr (minus_one, s\<lparr>calls := calls s @
             [Jni ''GetStringUTFChars'', Jni ''ReleaseStringUTFChars'',
              Sqlite_prepare_v2 db (distance_sql ms) (eng_prepare eng db (distance_sql ms)),
              Sqlite_errmsg db]\<rparr>)
      else Inr (if eng_step eng (bound db (distance_sql ms) [b1, b2]) = SQLITE_ROW
                then eng_column_double eng (bound db (distance_sql ms) [b1, b2])
                else minus_one,
             s\<lparr>calls := calls s @
               [Jni ''GetStringUTFChars'', Jni ''ReleaseStringUTFChars'',
                Sqlite_prepare_v2 db (distance_sql ms) SQLITE_OK,
                Jni ''GetArrayLength'', Jni ''GetByteArrayElements'', Sqlite_bind_blob 1,
                Jni ''GetArrayLength'', Jni ''GetByteArrayElements'', Sqlite_bind_blob 2,
                Sqlite_step (eng_step eng (bound db (distance_sql ms) [b1, b2]))]
               @ (if eng_step eng (bound db (distance_sql ms) [b1, b2]) = SQLITE_ROW
                  then [Sqlite_column_double] else [])
               @ [Jni ''ReleaseByteArrayElements'', Jni ''ReleaseByteArrayElements'',
                  Sqlite_finalize]\<rparr>))"
proof -
  have b: "bound db (distance_sql ms) [b1, b2] =
      \<lparr>stmt_db = db, stmt_sql = distance_sql ms, stmt_binds = [(1, Some b1), (2, Some b2)]\<rparr>"
    by (simp add: bound_def)
  show ?thesis
    unfolding nativeDistance_def distance_select
    using assms
    by (simp add: jni_defs sqlite_defs b)
qed

lemma vector_length_run:
  assumes "db \<noteq> 0" and "get_ok s" and "v < length (heap s)" "heap s ! v = ByteArray b"
  shows "nativeVectorLength eng db (Some v) s =
     (if eng_prepare eng db ''SELECT vec_length(?)'' \<noteq> SQLITE_OK
      then Inr (- 1, s\<lparr>calls := calls s @
             [Sqlite_prepare_v2 db ''SELECT vec_length(?)''
                (eng_prepare eng db ''SELECT vec_length(?)'')]\<rparr>)
      else Inr (if eng_step eng (bound db ''SELECT vec_length(?)'' [b]) = SQLITE_ROW
                then eng_column_int eng (bound db ''SELECT vec_length(?)'' [b])
                else - 1,
             s\<lparr>calls := calls s @
               [Sqlite_prepare_v2 db ''SELECT vec_length(?)'' SQLITE_OK,
                Jni ''GetArrayLength'', Jni ''GetByteArrayElements'', Sqlite_bind_blob 1,
                Sqlite_step (eng_step eng (bound db ''SELECT vec_length(?)'' [b]))]
               @ (if eng_step eng (bound db ''SELECT vec_length(?)'' [b]) = SQLITE_ROW
                  then [Sqlite_column_int] else [])
               @ [Jni ''ReleaseByteArrayElements'', Sqlite_finalize]\<rparr>))"
proof -
  have b: "bound db ''SELECT vec_length(?)'' [b] =
      \<lparr>stmt_db = db, stmt_sql = ''SELECT vec_length(?)'', stmt_binds = [(1, Some b)]\<rparr>"
    by (simp add: bound_def)
  show ?thesis
    unfolding nativeVectorLength_def
    using assms
    by (simp add: jni_defs sqlite_defs b)
qed

lemma normalize_run:
  assumes "db \<noteq> 0" and "get_ok s" and "v < length (heap s)" "heap s ! v = ByteArray b"
  shows "nativeNormalize eng db (Some v) s =
     (if eng_prepare eng db ''SELECT vec_normalize(?)'' \<noteq> SQLITE_OK
      then Inr (None, s\<lparr>calls := calls s @
             [Sqlite_prepare_v2 db ''SELECT vec_normalize(?)''
                (eng_prepare eng db ''SELECT vec_normalize(?)'')]\<rparr>)
      else if eng_step eng (bound db ''SELECT vec_normalize(?)'' [b]) \<noteq> SQLITE_ROW
      then Inr (None, s\<lparr>calls := calls s @
             [Sqlite_prepare_v2 db ''SELECT vec_normalize(?)'' SQLITE_OK,
              Jni ''GetArrayLength'', Jni ''GetByteArrayElements'', Sqlite_bind_blob 1,
              Sqlite_step (eng_step eng (bound db ''SELECT vec_normalize(?)'' [b])),
              Jni ''ReleaseByteArrayElements'', Sqlite_finalize]\<rparr>)
      else if new_ok s
      then Inr (Some (length (heap s)),
             s\<lparr>heap := heap s @
                 [ByteArray (eng_column_blob eng (bound db ''SELECT vec_normalize(?)'' [b]))],
               calls := calls s @
             [Sqlite_prepare_v2 db ''SELECT vec_normalize(?)'' SQLITE_OK,
              Jni ''GetArrayLength'', Jni ''GetByteArrayElements'', Sqlite_bind_blob 1,
              Sqlite_step SQLITE_ROW, Sqlite_column_blob, Sqlite_column_bytes,
              Jni ''NewByteArray'', Jni ''SetByteArrayRegion'',
              Jni ''ReleaseByteArrayElements'', Sqlite_finalize]\<rparr>)
      else Inr (None, s\<lparr>calls := calls s @
             [Sqlite_prepare_v2 db ''SELECT vec_normalize(?)'' SQLITE_OK,
              Jni ''GetArrayLength'', Jni ''GetByteArrayElements'', Sqlite_bind_blob 1,
              Sqlite_step SQLITE_ROW, Sqlite_column_blob, Sqlite_column_bytes,
              Jni ''NewByteArray'',
              Jni ''ReleaseByteArrayElements'', Sqlite_finalize]\<rparr>))"
proof -
  have b: "bound db ''SELECT vec_normalize(?)'' [b] =
      \<lparr>stmt_db = db, stmt_sql = ''SELECT vec_normalize(?)'', stmt_binds = [(1, Some b)]\<rparr>"
    by (simp add: bound_def)
  show ?thesis
    unfolding nativeNormalize_def
    using assms
    by (simp add: jni_defs sqlite_defs b nth_append)
qed

lemma minus_one_fields:
  "double_sign minus_one \<and> double_exponent minus_one = 1023 \<and> double_fraction minus_one = 0"
  by (simp add: double_sign_def double_exponent_def double_fraction_def minus_one_def)


section \<open>The Query Adapter: metric selection, sentinels, statements\<close>

text \<open>
  C4. For every connection, every pair of vector arguments and every metric string that
  is neither \<open>cosine\<close> nor \<open>l2\<close> (the empty string included), \<^verbatim>\<open>nativeDistance\<close>
  does exactly what it does for the metric \<open>cosine\<close>: same result, same calls. The
  unknown metric raises no error: with valid vector buffers and a granted borrow the call
  returns. The metric is given by the bytes \<^verbatim>\<open>GetStringUTFChars\<close> yields for it
  (modified UTF-8, which has no zero byte).
\<close>

theorem unknown_metric_is_cosine:
  assumes "m < length (heap s)" and "heap s ! m = JString ms"
    and "c < length (heap s)" and "heap s ! c = JString ''cosine''"
    and "ms \<noteq> ''cosine''" and "ms \<noteq> ''l2''" and "CHR 0x00 \<notin> set ms"
  shows "nativeDistance eng db v1 v2 (Some m) s = nativeDistance eng db v1 v2 (Some c) s
       \<and> (get_ok s \<and> i < length (heap s) \<and> heap s ! i = ByteArray b1
            \<and> j < length (heap s) \<and> heap s ! j = ByteArray b2 \<longrightarrow>
          (\<exists>d s'. nativeDistance eng db (Some i) (Some j) (Some m) s = Inr (d, s')))"
proof -
  have sql: "distance_sql ms = distance_sql ''cosine''"
    using assms(6,7) by (simp add: distance_sql_default distance_sql_cosine)
  have eq: "nativeDistance eng db v1 v2 (Some m) s = nativeDistance eng db v1 v2 (Some c) s"
    unfolding nativeDistance_def distance_select
    using assms(1-4)
    by (simp add: bnd_def GetStringUTFChars_def ReleaseStringUTFChars_def deref_def sql)
  have ok: "\<exists>d s'. nativeDistance eng db (Some i) (Some j) (Some m) s = Inr (d, s')"
    if "get_ok s" "i < length (heap s)" "heap s ! i = ByteArray b1"
      "j < length (heap s)" "heap s ! j = ByteArray b2"
  proof (cases "db = 0")
    case True
    then show ?thesis by (simp add: nativeDistance_def ret_def)
  next
    case False
    show ?thesis
      by (simp add: distance_run [OF False that(1) that(2,3) that(4,5) assms(1,2)])
  qed
  show ?thesis using eq ok by blast
qed


theorem unknown_metric_is_cosine_witness:
  "''dot'' \<noteq> ''cosine'' \<and> ''dot'' \<noteq> ''l2'' \<and> CHR 0x00 \<notin> set ''dot''
   \<and> nativeDistance (fixed_engine SQLITE_OK SQLITE_ROW 0 0 []) 1 (Some 0) (Some 1) (Some 2)
        (jvm [ByteArray [1, 2], ByteArray [3, 4], JString ''dot'', JString ''cosine''])
     = nativeDistance (fixed_engine SQLITE_OK SQLITE_ROW 0 0 []) 1 (Some 0) (Some 1) (Some 3)
        (jvm [ByteArray [1, 2], ByteArray [3, 4], JString ''dot'', JString ''cosine''])
   \<and> (\<exists>d s'. nativeDistance (fixed_engine SQLITE_OK SQLITE_ROW 0 0 []) 1 (Some 0) (Some 1) (Some 2)
        (jvm [ByteArray [1, 2], ByteArray [3, 4], JString ''dot'', JString ''cosine''])
       = Inr (d, s'))"
proof -
  let ?s = "jvm [ByteArray [1, 2], ByteArray [3, 4], JString ''dot'', JString ''cosine'']"
  have h: "2 < length (heap ?s)" "heap ?s ! 2 = JString ''dot''"
    "3 < length (heap ?s)" "heap ?s ! 3 = JString ''cosine''"
    "''dot'' \<noteq> ''cosine''" "''dot'' \<noteq> ''l2''" "CHR 0x00 \<notin> set ''dot''"
    by (simp_all add: jvm_def)
  have g: "get_ok ?s \<and> 0 < length (heap ?s) \<and> heap ?s ! 0 = ByteArray [1, 2]
      \<and> 1 < length (heap ?s) \<and> heap ?s ! 1 = ByteArray [3, 4]"
    by (simp add: jvm_def)
  show ?thesis
    using h(5-7) g
      unknown_metric_is_cosine [OF h, where i = 0 and ?b1.0 = "[1, 2]" and j = 1
        and ?b2.0 = "[3, 4]" and eng = "fixed_engine SQLITE_OK SQLITE_ROW 0 0 []" and db = 1
        and ?v1.0 = "Some 0" and ?v2.0 = "Some 1"]
    by blast
qed

text \<open>
  C7. \<^verbatim>\<open>nativeDistance\<close> returns the sentinel \<^verbatim>\<open>-1.0\<close> (sign bit set, exponent
  field 1023, fraction 0) when the connection handle is null, when preparing the statement
  fails, or when the step yields no row; in every other case it returns the double read
  from the result row.
\<close>

theorem distance_sentinel:
  assumes "get_ok s"
    and "v1 < length (heap s)" and "heap s ! v1 = ByteArray b1"
    and "v2 < length (heap s)" and "heap s ! v2 = ByteArray b2"
    and "m < length (heap s)" and "heap s ! m = JString ms"
  shows "(\<exists>s'. nativeDistance eng db (Some v1) (Some v2) (Some m) s =
            Inr (if db = 0 \<or> eng_prepare eng db (distance_sql ms) \<noteq> SQLITE_OK
                    \<or> eng_step eng (bound db (distance_sql ms) [b1, b2]) \<noteq> SQLITE_ROW
                 then minus_one
                 else eng_column_double eng (bound db (distance_sql ms) [b1, b2]), s'))
       \<and> double_sign minus_one \<and> double_exponent minus_one = 1023
       \<and> double_fraction minus_one = 0"
proof (cases "db = 0")
  case True
  then show ?thesis by (simp add: nativeDistance_def ret_def minus_one_fields)
next
  case False
  show ?thesis
    using False by (simp add: distance_run [OF False assms] minus_one_fields)
qed

theorem distance_sentinel_witness:
  "(\<exists>s'. nativeDistance (fixed_engine SQLITE_OK SQLITE_ROW 0x3FF0000000000000 0 []) 1
        (Some 0) (Some 1) (Some 2) (jvm [ByteArray [1, 2], ByteArray [3, 4], JString ''l2''])
      = Inr (0x3FF0000000000000, s'))
   \<and> (\<exists>s'. nativeDistance (fixed_engine SQLITE_ERROR SQLITE_ROW 0x3FF0000000000000 0 []) 1
        (Some 0) (Some 1) (Some 2) (jvm [ByteArray [1, 2], ByteArray [3, 4], JString ''l2''])
      = Inr (minus_one, s'))
   \<and> (\<exists>s'. nativeDistance (fixed_engine SQLITE_OK 101 0x3FF0000000000000 0 []) 1
        (Some 0) (Some 1) (Some 2) (jvm [ByteArray [1, 2], ByteArray [3, 4], JString ''l2''])
      = Inr (minus_one, s'))
   \<and> (\<exists>s'. nativeDistance (fixed_engine SQLITE_OK SQLITE_ROW 0x3FF0000000000000 0 []) 0
        (Some 0) (Some 1) (Some 2) (jvm [ByteArray [1, 2], ByteArray [3, 4], JString ''l2''])
      = Inr (minus_one, s'))"
  using distance_sentinel [where s = "jvm [ByteArray [1, 2], ByteArray [3, 4], JString ''l2'']"
      and ?v1.0 = 0 and ?b1.0 = "[1, 2]" and ?v2.0 = 1 and ?b2.0 = "[3, 4]" and m = 2
      and ms = "''l2''" and db = 1
      and eng = "fixed_engine SQLITE_OK SQLITE_ROW 0x3FF0000000000000 0 []"]
    distance_sentinel [where s = "jvm [ByteArray [1, 2], ByteArray [3, 4], JString ''l2'']"
      and ?v1.0 = 0 and ?b1.0 = "[1, 2]" and ?v2.0 = 1 and ?b2.0 = "[3, 4]" and m = 2
      and ms = "''l2''" and db = 1
      and eng = "fixed_engine SQLITE_ERROR SQLITE_ROW 0x3FF0000000000000 0 []"]
    distance_sentinel [where s = "jvm [ByteArray [1, 2], ByteArray [3, 4], JString ''l2'']"
      and ?v1.0 = 0 and ?b1.0 = "[1, 2]" and ?v2.0 = 1 and ?b2.0 = "[3, 4]" and m = 2
      and ms = "''l2''" and db = 1
      and eng = "fixed_engine SQLITE_OK 101 0x3FF0000000000000 0 []"]
    distance_sentinel [where s = "jvm [ByteArray [1, 2], ByteArray [3, 4], JString ''l2'']"
      and ?v1.0 = 0 and ?b1.0 = "[1, 2]" and ?v2.0 = 1 and ?b2.0 = "[3, 4]" and m = 2
      and ms = "''l2''" and db = 0
      and eng = "fixed_engine SQLITE_OK SQLITE_ROW 0x3FF0000000000000 0 []"]
  by (simp add: jvm_def fixed_engine_def SQLITE_ERROR_def SQLITE_OK_def SQLITE_ROW_def)



text \<open>
  C9. \<^verbatim>\<open>nativeNormalize\<close> returns \<^verbatim>\<open>NULL\<close> when the connection handle is null,
  when preparing the statement fails, or when the step yields no row. When the step yields
  a row (and the JVM grants the new array) it returns a new array holding the row's blob;
  the copy (\<^verbatim>\<open>SetByteArrayRegion\<close>) comes before \<^verbatim>\<open>sqlite3_finalize\<close>.
\<close>

theorem normalize_result:
  assumes "get_ok s" and "v < length (heap s)" and "heap s ! v = ByteArray b"
  shows "(db = 0 \<or> eng_prepare eng db ''SELECT vec_normalize(?)'' \<noteq> SQLITE_OK
            \<or> eng_step eng (bound db ''SELECT vec_normalize(?)'' [b]) \<noteq> SQLITE_ROW \<longrightarrow>
          (\<exists>s'. nativeNormalize eng db (Some v) s = Inr (None, s') \<and> heap s' = heap s))
       \<and> (db \<noteq> 0 \<and> eng_prepare eng db ''SELECT vec_normalize(?)'' = SQLITE_OK
            \<and> eng_step eng (bound db ''SELECT vec_normalize(?)'' [b]) = SQLITE_ROW
            \<and> new_ok s \<longrightarrow>
          (\<exists>s'. nativeNormalize eng db (Some v) s = Inr (Some (length (heap s)), s')
             \<and> heap s' = heap s @
                 [ByteArray (eng_column_blob eng (bound db ''SELECT vec_normalize(?)'' [b]))]
             \<and> new_calls s (nativeNormalize eng db (Some v) s) =
                 [Sqlite_prepare_v2 db ''SELECT vec_normalize(?)'' SQLITE_OK,
                  Jni ''GetArrayLength'', Jni ''GetByteArrayElements'', Sqlite_bind_blob 1,
                  Sqlite_step SQLITE_ROW, Sqlite_column_blob, Sqlite_column_bytes,
                  Jni ''NewByteArray'', Jni ''SetByteArrayRegion'',
                  Jni ''ReleaseByteArrayElements'', Sqlite_finalize]))"
proof (cases "db = 0")
  case True
  then show ?thesis by (simp add: nativeNormalize_def ret_def)
next
  case False
  show ?thesis
    using False by (auto simp: normalize_run [OF False assms] new_calls_def)
qed

theorem normalize_result_witness:
  "(\<exists>s'. nativeNormalize (fixed_engine SQLITE_OK SQLITE_ROW 0 0 [5, 6, 7, 8]) 1 (Some 0)
          (jvm [ByteArray [1, 2, 3, 4]]) = Inr (Some 1, s')
      \<and> heap s' = [ByteArray [1, 2, 3, 4], ByteArray [5, 6, 7, 8]])
   \<and> (\<exists>s'. nativeNormalize (fixed_engine SQLITE_OK SQLITE_ROW 0 0 [5, 6, 7, 8]) 0 (Some 0)
          (jvm [ByteArray [1, 2, 3, 4]]) = Inr (None, s')
      \<and> heap s' = [ByteArray [1, 2, 3, 4]])
   \<and> (\<exists>s'. nativeNormalize (fixed_engine SQLITE_ERROR SQLITE_ROW 0 0 [5, 6, 7, 8]) 1 (Some 0)
          (jvm [ByteArray [1, 2, 3, 4]]) = Inr (None, s')
      \<and> heap s' = [ByteArray [1, 2, 3, 4]])
   \<and> (\<exists>s'. nativeNormalize (fixed_engine SQLITE_OK 101 0 0 [5, 6, 7, 8]) 1 (Some 0)
          (jvm [ByteArray [1, 2, 3, 4]]) = Inr (None, s')
      \<and> heap s' = [ByteArray [1, 2, 3, 4]])"
  using normalize_result [where s = "jvm [ByteArray [1, 2, 3, 4]]" and v = 0
      and b = "[1, 2, 3, 4]" and db = 1
      and eng = "fixed_engine SQLITE_OK SQLITE_ROW 0 0 [5, 6, 7, 8]"]
    normalize_result [where s = "jvm [ByteArray [1, 2, 3, 4]]" and v = 0
      and b = "[1, 2, 3, 4]" and db = 0
      and eng = "fixed_engine SQLITE_OK SQLITE_ROW 0 0 [5, 6, 7, 8]"]
    normalize_result [where s = "jvm [ByteArray [1, 2, 3, 4]]" and v = 0
      and b = "[1, 2, 3, 4]" and db = 1
      and eng = "fixed_engine SQLITE_ERROR SQLITE_ROW 0 0 [5, 6, 7, 8]"]
    normalize_result [where s = "jvm [ByteArray [1, 2, 3, 4]]" and v = 0
      and b = "[1, 2, 3, 4]" and db = 1
      and eng = "fixed_engine SQLITE_OK 101 0 0 [5, 6, 7, 8]"]
  by (auto simp add: jvm_def fixed_engine_def SQLITE_ERROR_def SQLITE_OK_def SQLITE_ROW_def)

section \<open>The Extension Initializer on a null handle\<close>

text \<open>
  C5. On a null connection handle the initializer must fail at once, with no call into the
  engine or the extension. The C++ implementation does (\<open>init_cpp_null\<close> below); the C
  implementation has no null check: it calls \<^verbatim>\<open>sqlite3_vec_init\<close> with the null
  handle and returns whatever that call answers.
\<close>

theorem init_c_null_reaches_extension:
  "nativeInit_c eng 0 s =
     Inr (fst (eng_vec_init eng 0),
          s\<lparr>calls := calls s @ Sqlite_vec_init 0 #
             (if fst (eng_vec_init eng 0) \<noteq> SQLITE_OK \<and> snd (eng_vec_init eng 0) \<noteq> None
              then [Sqlite_free] else [])\<rparr>)"
  by (cases "eng_vec_init eng 0")
    (simp add: nativeInit_c_def bnd_def ret_def log_def sqlite3_vec_init_def sqlite3_free_def)


section \<open>Further properties of the C++ file and of the remaining queries\<close>

text \<open>
  \<^verbatim>\<open>nativeDeserializeFloat32\<close> of the C++ file returns \<^verbatim>\<open>NULL\<close> for every
  byte buffer whose length is not divisible by 4, whatever the JVM grants, and allocates
  nothing.
\<close>

theorem deserialize_cpp_rejects:
  assumes "r < length (heap s)" and "heap s ! r = ByteArray b" and "length b mod 4 \<noteq> 0"
  shows "\<exists>s'. nativeDeserializeFloat32_cpp e (Some r) s = Inr (None, s') \<and> heap s' = heap s"
  by (rule des_f32_cpp_unaligned [OF assms])

theorem deserialize_cpp_rejects_witness:
  "length [1, 2, 3, 4, 5 :: jbyte] mod 4 \<noteq> 0
   \<and> (\<exists>s'. nativeDeserializeFloat32_cpp LittleEndian (Some 0) (jvm [ByteArray [1, 2, 3, 4, 5]])
          = Inr (None, s')
        \<and> heap s' = [ByteArray [1, 2, 3, 4, 5]])"
  using deserialize_cpp_rejects [where r = 0 and s = "jvm [ByteArray [1, 2, 3, 4, 5]]"
      and b = "[1, 2, 3, 4, 5]" and e = LittleEndian]
  by (simp add: jvm_def)

text \<open>
  \<^verbatim>\<open>nativeInit\<close> of the C++ file on a null handle returns \<^verbatim>\<open>SQLITE_ERROR\<close>,
  which is not \<^verbatim>\<open>SQLITE_OK\<close>, and makes no call at all.
\<close>

theorem init_cpp_null:
  "nativeInit_cpp eng 0 s = Inr (SQLITE_ERROR, s) \<and> SQLITE_ERROR \<noteq> SQLITE_OK"
  by (simp add: nativeInit_cpp_def ret_def SQLITE_ERROR_def SQLITE_OK_def)

text \<open>
  \<^verbatim>\<open>nativeVectorLength\<close> returns \<open>-1\<close> when the handle is null, when preparing
  the statement fails, or when the step yields no row; otherwise it returns the integer
  read from the result row.
\<close>

theorem vector_length_sentinel:
  assumes "get_ok s" and "v < length (heap s)" and "heap s ! v = ByteArray b"
  shows "\<exists>s'. nativeVectorLength eng db (Some v) s =
           Inr (if db = 0 \<or> eng_prepare eng db ''SELECT vec_length(?)'' \<noteq> SQLITE_OK
                   \<or> eng_step eng (bound db ''SELECT vec_length(?)'' [b]) \<noteq> SQLITE_ROW
                then - 1
                else eng_column_int eng (bound db ''SELECT vec_length(?)'' [b]), s')"
proof (cases "db = 0")
  case True
  then show ?thesis by (simp add: nativeVectorLength_def ret_def)
next
  case False
  show ?thesis
    using False by (simp add: vector_length_run [OF False assms])
qed

theorem vector_length_sentinel_witness:
  "(\<exists>s'. nativeVectorLength (fixed_engine SQLITE_OK SQLITE_ROW 0 4 []) 1 (Some 0) (jvm [ByteArray [1, 2, 3, 4]])
        = Inr (4, s'))
   \<and> (\<exists>s'. nativeVectorLength (fixed_engine SQLITE_OK SQLITE_ROW 0 4 []) 0 (Some 0) (jvm [ByteArray [1, 2, 3, 4]])
        = Inr (- 1, s'))"
  using vector_length_sentinel [where s = "jvm [ByteArray [1, 2, 3, 4]]" and v = 0
      and b = "[1, 2, 3, 4]" and eng = "fixed_engine SQLITE_OK SQLITE_ROW 0 4 []" and db = 1]
    vector_length_sentinel [where s = "jvm [ByteArray [1, 2, 3, 4]]" and v = 0
      and b = "[1, 2, 3, 4]" and eng = "fixed_engine SQLITE_OK SQLITE_ROW 0 4 []" and db = 0]
  by (simp add: jvm_def fixed_engine_def SQLITE_ERROR_def SQLITE_OK_def SQLITE_ROW_def)

text \<open>
  \<^verbatim>\<open>nativeIsLoaded\<close> always returns; its result is true exactly when the statement
  \<^verbatim>\<open>SELECT vec_version()\<close> prepares and its step yields a row.
\<close>

theorem is_loaded_result:
  "\<exists>s'. nativeIsLoaded eng db s =
     Inr (eng_prepare eng db ''SELECT vec_version()'' = SQLITE_OK
          \<and> eng_step eng (bound db ''SELECT vec_version()'' []) = SQLITE_ROW, s')"
  by (simp add: isloaded_run)

section \<open>The two implementations compared\<close>

lemma observable_Inr:
  "observable s (Inr (x, s')) =
     Inr (x, heap s', filter is_engine_call (drop (length (calls s)) (calls s')))"
  by (simp add: observable_def new_calls_def)

lemma nativeInit_same: "db \<noteq> 0 \<Longrightarrow> nativeInit_c eng db s = nativeInit_cpp eng db s"
  by (cases "eng_vec_init eng db")
    (simp add: nativeInit_c_def nativeInit_cpp_def bnd_def ret_def sqlite3_vec_init_def
      sqlite3_free_def)

text \<open>
  Where none of the guards of the C++ file is exercised (a non-null handle, a buffer
  length divisible by 4, lengths within \<^verbatim>\<open>jsize\<close>, a JVM that grants the borrow and
  the allocation) the two files return the same value, leave the same heap and make the
  same engine calls on the operations they both export.
\<close>

lemma agree_where_guards_idle:
  assumes "r < length (heap s)" and "new_ok s" and "get_ok s"
  shows "nativeGetVersion_c ver s = nativeGetVersion_cpp ver s
       \<and> (db \<noteq> 0 \<longrightarrow> nativeInit_c eng db s = nativeInit_cpp eng db s)
       \<and> (heap s ! r = FloatArray v \<and> length v < 2 ^ 29 \<longrightarrow>
            observable s (nativeSerializeFloat32_c e (Some r) s)
              = observable s (nativeSerializeFloat32_cpp e (Some r) s)
            \<and> observable s (nativeSerializeFloat32_c e (Some r) s)
              = Inr (Some (length (heap s)), heap s @ [ByteArray (floats_as_bytes e v)], []))
       \<and> (heap s ! r = ByteArray b \<and> length b < 2 ^ 31 \<and> length b mod 4 = 0 \<longrightarrow>
            observable s (nativeDeserializeFloat32_c e (Some r) s)
              = observable s (nativeDeserializeFloat32_cpp e (Some r) s)
            \<and> observable s (nativeDeserializeFloat32_c e (Some r) s)
              = Inr (Some (length (heap s)), heap s @ [FloatArray (bytes_as_floats e b)], []))
       \<and> (heap s ! r = ByteArray b \<longrightarrow>
            observable s (nativeSerializeInt8_c (Some r) s)
              = observable s (nativeSerializeInt8_cpp (Some r) s)
            \<and> observable s (nativeSerializeInt8_c (Some r) s)
              = Inr (Some (length (heap s)), heap s @ [ByteArray b], []))"
  using assms
  by (simp add: nativeGetVersion_c_def nativeGetVersion_cpp_def nativeInit_same
      ser_f32_c_run ser_f32_cpp_run des_f32_c_run des_f32_cpp_run ser_i8_c_run ser_i8_cpp_run
      observable_Inr)

text \<open>
  C3. The two files should return the same result for every operation they both export
  and every input. They do not: the C file lacks guards that the C++ file has. On the
  5-byte buffer \<open>[1, 2, 3, 4, 5]\<close> \<^verbatim>\<open>nativeDeserializeFloat32\<close> of the C file
  allocates and returns a one-element vector, and that of the C++ file returns
  \<^verbatim>\<open>NULL\<close> and allocates nothing.
\<close>

theorem implementations_differ:
  "observable (jvm [ByteArray [1, 2, 3, 4, 5]])
      (nativeDeserializeFloat32_c LittleEndian (Some 0) (jvm [ByteArray [1, 2, 3, 4, 5]]))
     = Inr (Some 1, [ByteArray [1, 2, 3, 4, 5], FloatArray [0x04030201]], [])
   \<and> observable (jvm [ByteArray [1, 2, 3, 4, 5]])
      (nativeDeserializeFloat32_cpp LittleEndian (Some 0) (jvm [ByteArray [1, 2, 3, 4, 5]]))
     = Inr (None, [ByteArray [1, 2, 3, 4, 5]], [])
   \<and> observable (jvm [ByteArray [1, 2, 3, 4, 5]])
      (nativeDeserializeFloat32_c LittleEndian (Some 0) (jvm [ByteArray [1, 2, 3, 4, 5]]))
     \<noteq> observable (jvm [ByteArray [1, 2, 3, 4, 5]])
      (nativeDeserializeFloat32_cpp LittleEndian (Some 0) (jvm [ByteArray [1, 2, 3, 4, 5]]))"
  by (simp add: des_f32_c_run jvm_def observable_Inr float_of_def float_of_le_def
      nativeDeserializeFloat32_cpp_def jni_defs)

end
